theory Spec2Isabelle
  imports Main
begin

section \<open>Values exchanged with the store\<close>

text \<open>
  The program (\<^verbatim>\<open>src/jirre/main.py\<close>) keeps its tickets in one SQLite table with a
  full-text index beside it, and reads and writes them with single SQL statements,
  each in a \<^verbatim>\<open>with conn:\<close> block that commits, or rolls back when an exception leaves
  the block.

  Python's \<^verbatim>\<open>None\<close> is \<open>None\<close> of an option type. The tests \<^verbatim>\<open>if x:\<close> of the source
  are \<open>truthy\<close>: an optional string passes when it is neither \<^verbatim>\<open>None\<close> nor empty.
  A raised exception is a value of type \<open>error\<close>.
\<close>

definition truthy :: "string option \<Rightarrow> bool" where
  "truthy x = (case x of None \<Rightarrow> False | Some s \<Rightarrow> s \<noteq> [])"

datatype error =
  AttributeError | ProgrammingError | OperationalError | DatabaseError | ValueError | KeyError

subsection \<open>Time\<close>

text \<open>
  A \<^verbatim>\<open>datetime.datetime\<close> is modelled by the instant it denotes, in whole microseconds
  since the Unix epoch. Whether the object is timezone-aware (the one \<^verbatim>\<open>main\<close> supplies)
  or naive local time (the ones \<^verbatim>\<open>fromtimestamp\<close> returns) is not modelled.
\<close>

datatype datetime = Datetime (micros: int)

text \<open>
  \<^verbatim>\<open>adapt_datetime_epoch\<close> is \<^verbatim>\<open>int(val.timestamp())\<close>. For the aware datetime that
  \<^verbatim>\<open>main\<close> supplies, \<^verbatim>\<open>timestamp()\<close> divides the microseconds since the epoch by
  \<open>10^6\<close> and rounds the quotient to the nearest double (a significand of 53 bits,
  ties to even); \<^verbatim>\<open>int\<close> then cuts the fraction off. With \<open>s\<close> the whole seconds, the
  doubles next to the quotient are \<open>2^k\<close> apart for \<open>k = 53 - bitlen s\<close>, so the
  rounded quotient is the nearest multiple of \<open>1 / 2^k\<close>. This is the double for every
  instant of less than \<open>2^53\<close> seconds, which holds of every datetime. A negative
  instant is the mirror image.
\<close>

fun bitlen :: "nat \<Rightarrow> nat" where
  "bitlen n = (if n = 0 then 0 else Suc (bitlen (n div 2)))"

definition round_half_even :: "nat \<Rightarrow> nat \<Rightarrow> nat" where
  "round_half_even a d =
     (let q = a div d; r = a mod d
      in if 2 * r < d then q
         else if d < 2 * r then q + 1
         else if even q then q else q + 1)"

definition int_of_seconds :: "nat \<Rightarrow> nat" where
  "int_of_seconds m =
     (let k = 53 - bitlen (m div 1000000)
      in round_half_even (m * 2 ^ k) 1000000 div 2 ^ k)"

definition adapt_datetime_epoch :: "datetime \<Rightarrow> int" where
  "adapt_datetime_epoch val =
     (if 0 \<le> micros val then int (int_of_seconds (nat (micros val)))
      else - int (int_of_seconds (nat (- micros val))))"

text \<open>
  \<^verbatim>\<open>datetime.fromtimestamp\<close> converts epoch seconds to local time and raises when the
  result is not a year from 1 to 9999 there. Which timestamps it accepts depends on the
  local zone of the platform, so that is a parameter \<open>ok\<close>. The exception is
  \<open>ValueError\<close>; for timestamps far beyond any datetime the library raises other
  exceptions, which the model does not tell apart.
\<close>

definition fromtimestamp :: "(int \<Rightarrow> bool) \<Rightarrow> int \<Rightarrow> error + datetime" where
  "fromtimestamp ok secs = (if ok secs then Inr (Datetime (secs * 1000000)) else Inl ValueError)"

text \<open>
  A platform whose local zone is UTC: it accepts the years 1 to 9999 without the first
  day, because the conversion also looks one day back.
\<close>

definition utc_localtime_ok :: "int \<Rightarrow> bool" where
  "utc_localtime_ok secs = (- 62135510400 \<le> secs \<and> secs \<le> 253402300799)"

text \<open>
  The field \<^verbatim>\<open>updated_at\<close> of a ticket object holds what \<^verbatim>\<open>row_factory\<close> leaves
  there: \<^verbatim>\<open>None\<close>, a datetime, or the integer 0, which is falsy and so is not converted.
\<close>

datatype py_stamp = PyNone | PyZero | PyDatetime datetime

section \<open>The ticket table and its full-text index\<close>

text \<open>
  A stored row of table \<^verbatim>\<open>ticket\<close> (\<^verbatim>\<open>setup_db\<close>). The columns \<^verbatim>\<open>assigned_to\<close>,
  \<^verbatim>\<open>updated_by\<close> and \<^verbatim>\<open>updated_at\<close> hold NULL in rows the program writes; every other
  column is bound to a Python \<^verbatim>\<open>str\<close> (or to the adapted timestamp) by each statement
  that writes it. Timestamps are stored as integer epoch seconds.
\<close>

record ticket_row =
  c_rowid :: int
  c_name :: string
  c_description :: string
  c_project :: string
  c_status :: string
  c_assigned_to :: "string option"
  c_notes :: string
  c_created_by :: string
  c_updated_by :: "string option"
  c_created_at :: int
  c_updated_at :: "int option"

text \<open>
  The virtual table \<^verbatim>\<open>ticket_fts\<close> indexes six columns of the ticket table, which is
  its external content. The terms it holds are the search engine's and are not
  modelled. What is modelled are its counters, because a write can fail on them: the
  number of rows indexed, and for each column the number of tokens indexed.
\<close>

datatype fts_column = F_name | F_description | F_project | F_status | F_assigned_to | F_created_by

definition fts_columns :: "fts_column list" where
  "fts_columns = [F_name, F_description, F_project, F_status, F_assigned_to, F_created_by]"

record store =
  ticket_table :: "ticket_row list"
  fts_rows :: nat
  fts_size :: "fts_column \<Rightarrow> nat"

text \<open>The store \<^verbatim>\<open>setup_db\<close> makes of a new file.\<close>

definition empty_store :: store where
  "empty_store = \<lparr> ticket_table = [], fts_rows = 0, fts_size = (\<lambda>c. 0) \<rparr>"

text \<open>
  The tokenizer \<^verbatim>\<open>porter ascii\<close> makes one token of every maximal run of token
  characters: the ASCII letters and digits, and every byte from 128 on. NULL has no
  token.
\<close>

definition token_char :: "char \<Rightarrow> bool" where
  "token_char c =
     (c \<in> set ''0123456789ABCDEFGHIJKLMNOPQRSTUVWXYZabcdefghijklmnopqrstuvwxyz''
      \<or> 128 \<le> (of_char c :: nat))"

fun count_tokens :: "bool \<Rightarrow> string \<Rightarrow> nat" where
  "count_tokens inside [] = 0"
| "count_tokens inside (c # cs) =
     (if token_char c then (if inside then 0 else 1) + count_tokens True cs
      else count_tokens False cs)"

definition fts_tokens :: "string option \<Rightarrow> nat" where
  "fts_tokens v = (case v of None \<Rightarrow> 0 | Some text \<Rightarrow> count_tokens False text)"

definition fts_value :: "fts_column \<Rightarrow> ticket_row \<Rightarrow> string option" where
  "fts_value c r =
     (case c of
        F_name \<Rightarrow> Some (c_name r)
      | F_description \<Rightarrow> Some (c_description r)
      | F_project \<Rightarrow> Some (c_project r)
      | F_status \<Rightarrow> Some (c_status r)
      | F_assigned_to \<Rightarrow> c_assigned_to r
      | F_created_by \<Rightarrow> Some (c_created_by r))"

text \<open>
  \<^verbatim>\<open>INSERT INTO ticket_fts (rowid, ...) VALUES (NEW.rowid, ...)\<close>: the tokens of the
  given values are indexed and counted.
\<close>

definition fts_insert :: "store \<Rightarrow> ticket_row \<Rightarrow> store" where
  "fts_insert s r =
     s\<lparr> fts_rows := fts_rows s + 1,
        fts_size := (\<lambda>c. fts_size s c + fts_tokens (fts_value c r)) \<rparr>"

text \<open>
  \<^verbatim>\<open>DELETE FROM ticket_fts WHERE rowid = NEW.rowid\<close>: an index with external content
  reads the row to forget from the content table, which after an update holds the new
  values \<open>r\<close>. Their tokens are taken off the counters; the engine reports a corrupt
  index (\<^verbatim>\<open>sqlite3.DatabaseError\<close>) when a column's counter is smaller than the number
  of tokens to take off, or when no row is counted.
\<close>

definition fts_delete :: "store \<Rightarrow> ticket_row \<Rightarrow> error + store" where
  "fts_delete s r =
     (if (\<exists>c \<in> set fts_columns. fts_size s c < fts_tokens (fts_value c r)) \<or> fts_rows s < 1
      then Inl DatabaseError
      else Inr (s\<lparr> fts_rows := fts_rows s - 1,
                   fts_size := (\<lambda>c. fts_size s c - fts_tokens (fts_value c r)) \<rparr>))"

text \<open>The two triggers of \<^verbatim>\<open>setup_db\<close>, run for a row \<open>r\<close> as it is after the write.\<close>

definition insert_ticket :: "store \<Rightarrow> ticket_row \<Rightarrow> store" where
  "insert_ticket s r = fts_insert s r"

definition update_ticket :: "store \<Rightarrow> ticket_row \<Rightarrow> error + store" where
  "update_ticket s r = (case fts_delete s r of Inl e \<Rightarrow> Inl e | Inr s' \<Rightarrow> Inr (fts_insert s' r))"

fun after_update :: "store \<Rightarrow> ticket_row list \<Rightarrow> error + store" where
  "after_update s [] = Inr s"
| "after_update s (r # rs) =
     (case update_ticket s r of Inl e \<Rightarrow> Inl e | Inr s' \<Rightarrow> after_update s' rs)"

section \<open>The Ticket class\<close>

text \<open>
  The dataclass \<^verbatim>\<open>Ticket\<close>. Its annotation of \<^verbatim>\<open>updated_by\<close> is \<^verbatim>\<open>str\<close>, but
  \<^verbatim>\<open>row_factory\<close> stores the column as it comes, NULL included. The field \<^verbatim>\<open>notes\<close>
  is named \<open>ticket_notes\<close>: \<open>notes\<close> is a reserved word here.
\<close>

record Ticket =
  rowid :: int
  name :: string
  description :: string
  project :: string
  status :: string
  assigned_to :: "string option"
  ticket_notes :: string
  created_by :: string
  updated_by :: "string option"
  created_at :: datetime
  updated_at :: py_stamp

definition TODO :: string where "TODO = ''TODO''"
definition DOING :: string where "DOING = ''DOING''"
definition DONE :: string where "DONE = ''DONE''"

text \<open>
  \<^verbatim>\<open>Ticket.row_factory\<close>: a result row, read by column name. \<^verbatim>\<open>created_at\<close> is always
  converted; \<^verbatim>\<open>updated_at\<close> only when it is truthy. Either conversion can raise.
\<close>

definition row_factory :: "(int \<Rightarrow> bool) \<Rightarrow> ticket_row \<Rightarrow> error + Ticket" where
  "row_factory ok row =
     (case fromtimestamp ok (c_created_at row) of
        Inl e \<Rightarrow> Inl e
      | Inr created_at' \<Rightarrow>
          (case (case c_updated_at row of
                   None \<Rightarrow> Inr PyNone
                 | Some secs \<Rightarrow>
                     if secs \<noteq> 0
                     then (case fromtimestamp ok secs of
                             Inl e \<Rightarrow> Inl e
                           | Inr dt \<Rightarrow> Inr (PyDatetime dt))
                     else Inr PyZero) of
             Inl e \<Rightarrow> Inl e
           | Inr updated_at' \<Rightarrow>
               Inr \<lparr> rowid = c_rowid row,
                     name = c_name row,
                     description = c_description row,
                     project = c_project row,
                     status = c_status row,
                     assigned_to = c_assigned_to row,
                     ticket_notes = c_notes row,
                     created_by = c_created_by row,
                     updated_by = c_updated_by row,
                     created_at = created_at',
                     updated_at = updated_at' \<rparr>))"

text \<open>
  \<^verbatim>\<open>cursor.fetchone()\<close> and \<^verbatim>\<open>cursor.fetchall()\<close> of a cursor whose connection has a
  row factory: the first row, or every row, of the result, each through the factory.
\<close>

definition fetchone :: "('r \<Rightarrow> error + 'a) \<Rightarrow> 'r list \<Rightarrow> error + 'a option" where
  "fetchone factory rows =
     (case rows of
        [] \<Rightarrow> Inr None
      | r # _ \<Rightarrow> (case factory r of Inl e \<Rightarrow> Inl e | Inr t \<Rightarrow> Inr (Some t)))"

fun fetchall :: "('r \<Rightarrow> error + 'a) \<Rightarrow> 'r list \<Rightarrow> error + 'a list" where
  "fetchall factory [] = Inr []"
| "fetchall factory (r # rs) =
     (case factory r of
        Inl e \<Rightarrow> Inl e
      | Inr t \<Rightarrow> (case fetchall factory rs of Inl e \<Rightarrow> Inl e | Inr ts \<Rightarrow> Inr (t # ts)))"

text \<open>\<^verbatim>\<open>SELECT ... FROM ticket WHERE rowid = :rowid\<close>\<close>

definition select_by_rowid :: "int \<Rightarrow> ticket_row list \<Rightarrow> ticket_row list" where
  "select_by_rowid rid rows = filter (\<lambda>r. c_rowid r = rid) rows"

text \<open>
  \<^verbatim>\<open>UPDATE ticket SET ... WHERE rowid = :rowid RETURNING ...\<close>: the assignments \<open>f\<close>
  are applied to every row with that rowid (SQLite has at most one), the trigger
  \<^verbatim>\<open>update_ticket\<close> runs for each row changed, and the statement returns the rows it
  changed. When a trigger fails, so does the statement.
\<close>

definition update_by_rowid ::
  "(ticket_row \<Rightarrow> ticket_row) \<Rightarrow> int \<Rightarrow> store \<Rightarrow> error + store \<times> ticket_row list" where
  "update_by_rowid f rid s =
     (let changed = map f (select_by_rowid rid (ticket_table s));
          s' = s\<lparr> ticket_table := map (\<lambda>r. if c_rowid r = rid then f r else r) (ticket_table s) \<rparr>
      in case after_update s' changed of
           Inl e \<Rightarrow> Inl e
         | Inr s'' \<Rightarrow> Inr (s'', changed))"

text \<open>
  The rowid SQLite gives an inserted row: 1 in an empty table, else one more than the
  largest rowid in use (the random choice once the largest is \<open>2^63 - 1\<close> is not modelled).
\<close>

definition next_rowid :: "ticket_row list \<Rightarrow> int" where
  "next_rowid rows = (if rows = [] then 1 else Max (set (map c_rowid rows)) + 1)"

text \<open>\<^verbatim>\<open>Ticket.get\<close>: the result of \<^verbatim>\<open>fetchone\<close> is returned unchecked.\<close>

definition Ticket_get :: "(int \<Rightarrow> bool) \<Rightarrow> store \<Rightarrow> int \<Rightarrow> error + Ticket option" where
  "Ticket_get ok s rid = fetchone (row_factory ok) (select_by_rowid rid (ticket_table s))"

text \<open>
  The three writers return the store they leave and the ticket fetched, or the
  exception raised; an exception inside the \<^verbatim>\<open>with conn:\<close> block leaves the store as it
  was.

  \<^verbatim>\<open>Ticket.new\<close>: the INSERT names seven columns; \<^verbatim>\<open>notes\<close> takes its default \<^verbatim>\<open>''\<close>,
  \<^verbatim>\<open>updated_by\<close> and \<^verbatim>\<open>updated_at\<close> stay NULL. The datetime parameter goes through the
  registered adapter. The trigger \<^verbatim>\<open>insert_ticket\<close> indexes the new row.
\<close>

definition Ticket_new ::
  "(int \<Rightarrow> bool) \<Rightarrow> store \<Rightarrow> string \<Rightarrow> string \<Rightarrow> string \<Rightarrow> string option \<Rightarrow> string \<Rightarrow> datetime
     \<Rightarrow> store \<times> (error + Ticket option)" where
  "Ticket_new ok s nm descr proj asg creator current_datetime =
     (let row = \<lparr> c_rowid = next_rowid (ticket_table s),
                  c_name = nm,
                  c_description = descr,
                  c_project = proj,
                  c_status = TODO,
                  c_assigned_to = asg,
                  c_notes = [],
                  c_created_by = creator,
                  c_updated_by = None,
                  c_created_at = adapt_datetime_epoch current_datetime,
                  c_updated_at = None \<rparr>;
          s' = insert_ticket (s\<lparr> ticket_table := ticket_table s @ [row] \<rparr>) row
      in case fetchone (row_factory ok) [row] of
           Inl e \<Rightarrow> (s, Inl e)
         | Inr ticket \<Rightarrow> (s', Inr ticket))"

text \<open>\<^verbatim>\<open>Ticket.assign_to\<close>: only \<^verbatim>\<open>self.rowid\<close> of the object is used.\<close>

definition assign_to ::
  "(int \<Rightarrow> bool) \<Rightarrow> Ticket \<Rightarrow> store \<Rightarrow> string \<Rightarrow> string option \<Rightarrow> string \<Rightarrow> datetime
     \<Rightarrow> store \<times> (error + Ticket option)" where
  "assign_to ok self s st asg updater current_datetime =
     (case update_by_rowid
             (\<lambda>r. r\<lparr> c_status := st,
                      c_assigned_to := asg,
                      c_updated_by := Some updater,
                      c_updated_at := Some (adapt_datetime_epoch current_datetime) \<rparr>)
             (rowid self) s of
        Inl e \<Rightarrow> (s, Inl e)
      | Inr (s', returned) \<Rightarrow>
          (case fetchone (row_factory ok) returned of
             Inl e \<Rightarrow> (s, Inl e)
           | Inr ticket \<Rightarrow> (s', Inr ticket)))"

text \<open>\<^verbatim>\<open>Ticket.mark_as_done\<close>\<close>

definition mark_as_done ::
  "(int \<Rightarrow> bool) \<Rightarrow> Ticket \<Rightarrow> store \<Rightarrow> string \<Rightarrow> string \<Rightarrow> datetime
     \<Rightarrow> store \<times> (error + Ticket option)" where
  "mark_as_done ok self s nts updater current_datetime =
     (case update_by_rowid
             (\<lambda>r. r\<lparr> c_status := DONE,
                      c_notes := nts,
                      c_assigned_to := None,
                      c_updated_by := Some updater,
                      c_updated_at := Some (adapt_datetime_epoch current_datetime) \<rparr>)
             (rowid self) s of
        Inl e \<Rightarrow> (s, Inl e)
      | Inr (s', returned) \<Rightarrow>
          (case fetchone (row_factory ok) returned of
             Inl e \<Rightarrow> (s, Inl e)
           | Inr ticket \<Rightarrow> (s', Inr ticket)))"

section \<open>The filtered listing\<close>

text \<open>
  \<^verbatim>\<open>_list_tickets\<close> builds the text of its SELECT by appending string literals and
  fills a dict of named parameters. The literals are kept character by character,
  with the line breaks and indentation of the triple-quoted strings.
\<close>

definition select_head :: string where
  "select_head =
     ''\<newline>    SELECT\<newline>        t.rowid,\<newline>        t.name,\<newline>        t.description,\<newline>        t.project,\<newline>        t.status,\<newline>        t.assigned_to,\<newline>        t.notes,\<newline>        t.created_by,\<newline>        t.created_at,\<newline>        t.updated_by,\<newline>        t.updated_at\<newline>    FROM ticket t\<newline>    ''"

definition fts_join :: string where
  "fts_join =
     ''\<newline>            INNER JOIN ticket_fts ON ticket_fts.rowid  = t.rowid\<newline>                AND ticket_fts MATCH :search\<newline>        ''"

definition where_true :: string where
  "where_true = ''WHERE 1 = 1''"

definition and_status :: string where
  "and_status = ''    AND t.status = :status''"

definition and_assigned_to :: string where
  "and_assigned_to = ''    AND t.assigned_to = :assigned_to''"

definition and_created_by :: string where
  "and_created_by = ''    AND t.created_by = :created_by''"

text \<open>
  The statement and its parameters, as the two variables \<^verbatim>\<open>sql\<close> and \<^verbatim>\<open>params\<close> stand
  when \<^verbatim>\<open>conn.execute\<close> is called. The dict is a map from parameter name to the bound
  string. Each step below is one \<^verbatim>\<open>if\<close> block of the source, in its order.
\<close>

type_synonym params = "string \<rightharpoonup> string"

definition list_tickets_query ::
  "string option \<Rightarrow> string option \<Rightarrow> string option \<Rightarrow> string option \<Rightarrow> string \<times> params" where
  "list_tickets_query st search asg creator =
     (let params = Map.empty;
          sql = select_head;
          (sql, params) =
            (if truthy search
             then (sql @ fts_join, params(''search'' \<mapsto> the search))
             else (sql, params));
          sql = sql @ where_true;
          (sql, params) =
            (if truthy st
             then (sql @ and_status, params(''status'' \<mapsto> the st))
             else (sql, params));
          (sql, params) =
            (if truthy asg
             then (sql @ and_assigned_to, params(''assigned_to'' \<mapsto> the asg))
             else (sql, params));
          (sql, params) =
            (if truthy creator
             then (sql @ and_created_by, params(''created_by'' \<mapsto> the creator))
             else (sql, params))
      in (sql, params))"

subsection \<open>What the database does with such a statement\<close>

text \<open>
  \<^verbatim>\<open>conn.execute(sql, params)\<close> is the library's. Its model reads the statement from its
  text. The text is cut into words at white space, with the comma and the equals sign
  words of their own.
\<close>

definition is_space :: "char \<Rightarrow> bool" where
  "is_space c = (c = CHR '' '' \<or> c = CHR ''\<newline>'' \<or> c = CHR 0x09 \<or> c = CHR 0x0D)"

fun lex :: "string \<Rightarrow> string \<Rightarrow> string list" where
  "lex w [] = (if w = [] then [] else [w])"
| "lex w (c # cs) =
     (if is_space c then (if w = [] then [] else [w]) @ lex [] cs
      else if c = CHR '','' \<or> c = CHR ''='' then (if w = [] then [] else [w]) @ [c] # lex [] cs
      else lex (w @ [c]) cs)"

definition sql_words :: "string \<Rightarrow> string list" where
  "sql_words sql = lex [] sql"

text \<open>
  The statements read are those of the shape

  \<^verbatim>\<open>SELECT t.c, ... FROM ticket t [INNER JOIN ticket_fts ON ticket_fts.rowid = t.rowid
    AND ticket_fts MATCH :p] WHERE cond AND ... AND cond\<close>

  where a condition compares two integer literals, or a text column of the table with
  a named parameter. A text of another shape is not modelled and is answered with
  \<open>OperationalError\<close>, which is also the library's answer to a text that is not SQL or
  names a column the table does not have.
\<close>

datatype cond = Const_eq int int | Column_eq string string

record select_stmt =
  sel_columns :: "string list"
  sel_match :: "string option"
  sel_conds :: "cond list"

definition column_ref :: "string \<Rightarrow> string option" where
  "column_ref w =
     (case w of
        c1 # c2 # n \<Rightarrow> if c1 = CHR ''t'' \<and> c2 = CHR ''.'' \<and> n \<noteq> [] then Some n else None
      | _ \<Rightarrow> None)"

definition param_ref :: "string \<Rightarrow> string option" where
  "param_ref w =
     (case w of
        c # n \<Rightarrow> if c = CHR '':'' \<and> n \<noteq> [] then Some n else None
      | [] \<Rightarrow> None)"

definition int_literal :: "string \<Rightarrow> int option" where
  "int_literal w =
     (if w \<noteq> [] \<and> list_all (\<lambda>c. c \<in> set ''0123456789'') w
      then Some (int (foldl (\<lambda>a c. 10 * a + (of_char c - 48)) 0 w))
      else None)"

definition parse_cond :: "string \<Rightarrow> string \<Rightarrow> string \<Rightarrow> cond option" where
  "parse_cond a e b =
     (if e \<noteq> ''='' then None
      else case (int_literal a, int_literal b) of
             (Some i, Some j) \<Rightarrow> Some (Const_eq i j)
           | _ \<Rightarrow>
              (case (column_ref a, param_ref b) of
                 (Some n, Some p) \<Rightarrow> Some (Column_eq n p)
               | _ \<Rightarrow> None))"

fun parse_conds :: "string \<Rightarrow> string list \<Rightarrow> cond list option" where
  "parse_conds keyword (k # a # e # b # rest) =
     (if k \<noteq> keyword then None
      else case parse_cond a e b of
             None \<Rightarrow> None
           | Some c \<Rightarrow>
              (if rest = [] then Some [c] else map_option ((#) c) (parse_conds ''AND'' rest)))"
| "parse_conds keyword _ = None"

fun parse_columns :: "string list \<Rightarrow> (string list \<times> string list) option" where
  "parse_columns (w # sep # rest) =
     (case column_ref w of
        None \<Rightarrow> None
      | Some n \<Rightarrow>
          if sep = '','' then map_option (\<lambda>(ns, rest'). (n # ns, rest')) (parse_columns rest)
          else if sep = ''FROM'' then Some ([n], rest)
          else None)"
| "parse_columns _ = None"

fun strip_prefix :: "'a list \<Rightarrow> 'a list \<Rightarrow> 'a list option" where
  "strip_prefix [] ys = Some ys"
| "strip_prefix (x # xs) [] = None"
| "strip_prefix (x # xs) (y # ys) = (if x = y then strip_prefix xs ys else None)"

definition parse_select :: "string list \<Rightarrow> select_stmt option" where
  "parse_select ws =
     (case strip_prefix [''SELECT''] ws of
        None \<Rightarrow> None
      | Some ws1 \<Rightarrow>
         (case parse_columns ws1 of
            None \<Rightarrow> None
          | Some (cols, ws2) \<Rightarrow>
             (case strip_prefix [''ticket'', ''t''] ws2 of
                None \<Rightarrow> None
              | Some ws3 \<Rightarrow>
                 (case strip_prefix
                         [''INNER'', ''JOIN'', ''ticket_fts'', ''ON'', ''ticket_fts.rowid'', ''='',
                          ''t.rowid'', ''AND'', ''ticket_fts'', ''MATCH''] ws3 of
                    None \<Rightarrow>
                      map_option
                        (\<lambda>cs. \<lparr> sel_columns = cols, sel_match = None, sel_conds = cs \<rparr>)
                        (parse_conds ''WHERE'' ws3)
                  | Some [] \<Rightarrow> None
                  | Some (p # ws4) \<Rightarrow>
                      (case param_ref p of
                         None \<Rightarrow> None
                       | Some q \<Rightarrow>
                          map_option
                            (\<lambda>cs. \<lparr> sel_columns = cols, sel_match = Some q, sel_conds = cs \<rparr>)
                            (parse_conds ''WHERE'' ws4))))))"

text \<open>
  The columns a statement can select from the table, and those of them that hold text
  or NULL. A condition on a text column holds of a row whose column is not NULL and
  equals the bound text; a condition on two literals holds when they are equal.
\<close>

definition table_columns :: "string list" where
  "table_columns =
     [''rowid'', ''name'', ''description'', ''project'', ''status'', ''assigned_to'', ''notes'',
      ''created_by'', ''created_at'', ''updated_by'', ''updated_at'']"

definition text_column :: "string \<Rightarrow> (ticket_row \<Rightarrow> string option) option" where
  "text_column n =
     (if n = ''name'' then Some (\<lambda>r. Some (c_name r))
      else if n = ''description'' then Some (\<lambda>r. Some (c_description r))
      else if n = ''project'' then Some (\<lambda>r. Some (c_project r))
      else if n = ''status'' then Some (\<lambda>r. Some (c_status r))
      else if n = ''assigned_to'' then Some c_assigned_to
      else if n = ''notes'' then Some (\<lambda>r. Some (c_notes r))
      else if n = ''created_by'' then Some (\<lambda>r. Some (c_created_by r))
      else if n = ''updated_by'' then Some c_updated_by
      else None)"

definition cond_known :: "cond \<Rightarrow> bool" where
  "cond_known c = (case c of Const_eq i j \<Rightarrow> True | Column_eq n p \<Rightarrow> text_column n \<noteq> None)"

definition cond_bound :: "params \<Rightarrow> cond \<Rightarrow> bool" where
  "cond_bound ps c = (case c of Const_eq i j \<Rightarrow> True | Column_eq n p \<Rightarrow> ps p \<noteq> None)"

definition cond_holds :: "params \<Rightarrow> cond \<Rightarrow> ticket_row \<Rightarrow> bool" where
  "cond_holds ps c r =
     (case c of
        Const_eq i j \<Rightarrow> i = j
      | Column_eq n p \<Rightarrow>
          (case text_column n of
             None \<Rightarrow> False
           | Some col \<Rightarrow> col r \<noteq> None \<and> col r = ps p))"

text \<open>
  What \<^verbatim>\<open>MATCH\<close> accepts is the search engine's, and so is the content of the index.
  They are a parameter \<open>match\<close>: for a query string, the rowids whose index entry
  matches at the time of the call, or \<open>None\<close> when the engine rejects the query string.
  The order of the rows of a joined result is not modelled.

  The statement fails on an unknown column before its parameters are looked at, and on
  an unbound parameter (\<open>ProgrammingError\<close>) before it runs. Its result is the names of
  the selected columns (the cursor's description) and the rows selected.
\<close>

type_synonym fts = "string \<Rightarrow> (int \<Rightarrow> bool) option"

definition execute_select ::
  "fts \<Rightarrow> store \<Rightarrow> string \<Rightarrow> params \<Rightarrow> error + string list \<times> ticket_row list" where
  "execute_select match s sql ps =
     (case parse_select (sql_words sql) of
        None \<Rightarrow> Inl OperationalError
      | Some stmt \<Rightarrow>
          if \<not> list_all (\<lambda>n. n \<in> set table_columns) (sel_columns stmt)
             \<or> \<not> list_all cond_known (sel_conds stmt)
          then Inl OperationalError
          else if (case sel_match stmt of None \<Rightarrow> False | Some q \<Rightarrow> ps q = None)
                  \<or> \<not> list_all (cond_bound ps) (sel_conds stmt)
          then Inl ProgrammingError
          else
            (case (case sel_match stmt of
                     None \<Rightarrow> Some (\<lambda>i. True)
                   | Some q \<Rightarrow> match (the (ps q))) of
               None \<Rightarrow> Inl OperationalError
             | Some hit \<Rightarrow>
                 Inr (sel_columns stmt,
                      filter (\<lambda>r. hit (c_rowid r) \<and> list_all (\<lambda>c. cond_holds ps c r) (sel_conds stmt))
                        (ticket_table s))))"

text \<open>
  In \<^verbatim>\<open>_list_tickets\<close> the factory gets rows of the columns the statement selected:
  \<^verbatim>\<open>raw_data[...]\<close> raises \<open>KeyError\<close> for a column that is not among them.
\<close>

definition factory_columns :: "string list" where
  "factory_columns =
     [''rowid'', ''name'', ''description'', ''project'', ''status'', ''assigned_to'', ''notes'',
      ''created_by'', ''created_at'', ''updated_by'', ''updated_at'']"

definition cursor_row_factory ::
  "string list \<Rightarrow> (int \<Rightarrow> bool) \<Rightarrow> ticket_row \<Rightarrow> error + Ticket" where
  "cursor_row_factory headers ok row =
     (if list_all (\<lambda>n. n \<in> set headers) factory_columns then row_factory ok row
      else Inl KeyError)"

text \<open>
  The value of the variable \<^verbatim>\<open>tickets\<close> of \<^verbatim>\<open>_list_tickets\<close>: the rows fetched, each
  through \<^verbatim>\<open>row_factory\<close>.
\<close>

definition list_tickets_fetch ::
  "fts \<Rightarrow> (int \<Rightarrow> bool) \<Rightarrow> store \<Rightarrow> string option \<Rightarrow> string option \<Rightarrow> string option
     \<Rightarrow> string option \<Rightarrow> error + Ticket list" where
  "list_tickets_fetch match ok s st search asg creator =
     (let (sql, params) = list_tickets_query st search asg creator
      in case execute_select match s sql params of
           Inl e \<Rightarrow> Inl e
         | Inr (headers, rows) \<Rightarrow> fetchall (cursor_row_factory headers ok) rows)"

section \<open>Rendering\<close>

text \<open>
  \<^verbatim>\<open>f"{self.rowid}"\<close>: the decimal text of an integer.
\<close>

fun digits_of :: "nat \<Rightarrow> string" where
  "digits_of n =
     (if n < 10 then [''0123456789'' ! n]
      else digits_of (n div 10) @ [''0123456789'' ! (n mod 10)])"

definition format_int :: "int \<Rightarrow> string" where
  "format_int i = (if i < 0 then CHR ''-'' # digits_of (nat (- i)) else digits_of (nat i))"

text \<open>
  \<^verbatim>\<open>Ticket.asdict\<close>. \<^verbatim>\<open>datetime.isoformat\<close> is the library's and is a parameter. The dict
  is the list of its items in insertion order; a value is a string or \<^verbatim>\<open>None\<close>. The
  fields \<^verbatim>\<open>assigned_to\<close>, \<^verbatim>\<open>updated_at\<close> and \<^verbatim>\<open>project\<close> are replaced by the empty string
  when falsy; every other field is stored as it is.
\<close>

definition asdict :: "(datetime \<Rightarrow> string) \<Rightarrow> Ticket \<Rightarrow> (string \<times> string option) list" where
  "asdict isoformat self =
     (let assigned_to' = (if truthy (assigned_to self) then the (assigned_to self) else []);
          updated_at' = (case updated_at self of
                           PyDatetime dt \<Rightarrow> isoformat dt
                         | PyZero \<Rightarrow> []
                         | PyNone \<Rightarrow> []);
          project' = (if project self \<noteq> [] then project self else [])
      in [(''rowid'', Some (format_int (rowid self))),
          (''name'', Some (name self)),
          (''description'', Some (description self)),
          (''project'', Some project'),
          (''status'', Some (status self)),
          (''assigned_to'', Some assigned_to'),
          (''notes'', Some (ticket_notes self)),
          (''created_by'', Some (created_by self)),
          (''updated_by'', updated_by self),
          (''created_at'', Some (isoformat (created_at self))),
          (''updated_at'', Some updated_at')])"

text \<open>
  \<^verbatim>\<open>Ticket.add_to_table\<close>: the table is its title, its columns and its rows; the method
  appends one row of eleven strings. Here \<^verbatim>\<open>notes\<close>, \<^verbatim>\<open>assigned_to\<close>, \<^verbatim>\<open>updated_by\<close>
  and \<^verbatim>\<open>updated_at\<close> are replaced by the empty string when falsy.
\<close>

record Table =
  t_title :: string
  t_columns :: "string list"
  t_rows :: "string list list"

definition add_to_table :: "(datetime \<Rightarrow> string) \<Rightarrow> Ticket \<Rightarrow> Table \<Rightarrow> Table" where
  "add_to_table isoformat self table =
     (let notes' = (if ticket_notes self \<noteq> [] then ticket_notes self else []);
          assigned_to' = (if truthy (assigned_to self) then the (assigned_to self) else []);
          updated_by' = (if truthy (updated_by self) then the (updated_by self) else []);
          updated_at' = (case updated_at self of
                           PyDatetime dt \<Rightarrow> isoformat dt
                         | PyZero \<Rightarrow> []
                         | PyNone \<Rightarrow> [])
      in table\<lparr> t_rows := t_rows table @
           [[format_int (rowid self), name self, description self, project self,
             status self, assigned_to', notes', created_by self,
             isoformat (created_at self), updated_by', updated_at']] \<rparr>)"

text \<open>
  What \<^verbatim>\<open>_list_tickets\<close> prints: the list of dicts given to \<^verbatim>\<open>rich.print_json\<close>, or the
  table given to \<^verbatim>\<open>rich.print\<close>.
\<close>

datatype printed = Json "(string \<times> string option) list list" | Console Table

definition list_tickets ::
  "fts \<Rightarrow> (int \<Rightarrow> bool) \<Rightarrow> (datetime \<Rightarrow> string) \<Rightarrow> store \<Rightarrow> string option \<Rightarrow> string option
     \<Rightarrow> string option \<Rightarrow> string option \<Rightarrow> string \<Rightarrow> error + printed" where
  "list_tickets match ok isoformat s st search asg creator fmt =
     (case list_tickets_fetch match ok s st search asg creator of
        Inl e \<Rightarrow> Inl e
      | Inr tickets \<Rightarrow>
          if fmt = ''json'' then Inr (Json (map (asdict isoformat) tickets))
          else
            Inr (Console
              (fold (add_to_table isoformat) tickets
                 \<lparr> t_title = ''Tickets'',
                   t_columns = [''rowid'', ''name'', ''description'', ''project'', ''status'',
                                ''assigned_to'', ''notes'', ''created_by'', ''created_at'',
                                ''updated_by'', ''updated_at''],
                   t_rows = [] \<rparr>)))"

section \<open>The command handlers\<close>

text \<open>
  A handler gets the parsed arguments, the connection, the user and the current time.
  Its model returns the store it leaves, and what it printed or the exception that
  ended it. \<^verbatim>\<open>args.assign_to\<close> is \<^verbatim>\<open>None\<close> when the option is omitted. \<^verbatim>\<open>args.rowid\<close> is
  the command-line text, which the database compares with the integer rowid; the model
  takes the integer it denotes. \<^verbatim>\<open>Ticket.get\<close> may return \<^verbatim>\<open>None\<close>, and the method call
  on it then raises \<open>AttributeError\<close>. An exception of the write ends the handler; the
  listing runs after the write is committed.
\<close>

definition assign_todo_handler ::
  "fts \<Rightarrow> (int \<Rightarrow> bool) \<Rightarrow> (datetime \<Rightarrow> string) \<Rightarrow> string \<Rightarrow> int \<Rightarrow> string option \<Rightarrow> store
     \<Rightarrow> string \<Rightarrow> datetime \<Rightarrow> store \<times> (error + printed)" where
  "assign_todo_handler match ok isoformat fmt rid arg_assign_to s user current_datetime =
     (let assigned_to' = (if truthy arg_assign_to then arg_assign_to else None)
      in case Ticket_get ok s rid of
           Inl e \<Rightarrow> (s, Inl e)
         | Inr None \<Rightarrow> (s, Inl AttributeError)
         | Inr (Some ticket) \<Rightarrow>
             (case assign_to ok ticket s TODO assigned_to' user current_datetime of
                (s', Inl e) \<Rightarrow> (s', Inl e)
              | (s', Inr _) \<Rightarrow>
                  (s', list_tickets match ok isoformat s' (Some []) (Some []) (Some []) (Some [])
                         fmt)))"

definition assign_doing_handler ::
  "fts \<Rightarrow> (int \<Rightarrow> bool) \<Rightarrow> (datetime \<Rightarrow> string) \<Rightarrow> string \<Rightarrow> int \<Rightarrow> string option \<Rightarrow> store
     \<Rightarrow> string \<Rightarrow> datetime \<Rightarrow> store \<times> (error + printed)" where
  "assign_doing_handler match ok isoformat fmt rid arg_assign_to s user current_datetime =
     (let assigned_to' = (if truthy arg_assign_to then arg_assign_to else Some user)
      in case Ticket_get ok s rid of
           Inl e \<Rightarrow> (s, Inl e)
         | Inr None \<Rightarrow> (s, Inl AttributeError)
         | Inr (Some ticket) \<Rightarrow>
             (case assign_to ok ticket s DOING assigned_to' user current_datetime of
                (s', Inl e) \<Rightarrow> (s', Inl e)
              | (s', Inr _) \<Rightarrow>
                  (s', list_tickets match ok isoformat s' (Some []) (Some []) (Some []) (Some [])
                         fmt)))"

definition mark_as_done_handler ::
  "fts \<Rightarrow> (int \<Rightarrow> bool) \<Rightarrow> (datetime \<Rightarrow> string) \<Rightarrow> string \<Rightarrow> int \<Rightarrow> string \<Rightarrow> store
     \<Rightarrow> string \<Rightarrow> datetime \<Rightarrow> store \<times> (error + printed)" where
  "mark_as_done_handler match ok isoformat fmt rid arg_notes s user current_datetime =
     (case Ticket_get ok s rid of
        Inl e \<Rightarrow> (s, Inl e)
      | Inr None \<Rightarrow> (s, Inl AttributeError)
      | Inr (Some ticket) \<Rightarrow>
          (case mark_as_done ok ticket s arg_notes user current_datetime of
             (s', Inl e) \<Rightarrow> (s', Inl e)
           | (s', Inr _) \<Rightarrow>
               (s', list_tickets match ok isoformat s' (Some []) (Some []) (Some []) (Some [])
                      fmt)))"

section \<open>The stores the program builds\<close>

text \<open>
  Every store of the program comes from the empty one by its three writers, on one
  platform.
\<close>

inductive reachable :: "(int \<Rightarrow> bool) \<Rightarrow> store \<Rightarrow> bool" for ok :: "int \<Rightarrow> bool" where
  reachable_empty: "reachable ok empty_store"
| reachable_new:
    "reachable ok s \<Longrightarrow> reachable ok (fst (Ticket_new ok s nm descr proj asg creator now))"
| reachable_assign_to:
    "reachable ok s \<Longrightarrow> reachable ok (fst (assign_to ok self s st asg updater now))"
| reachable_mark_as_done:
    "reachable ok s \<Longrightarrow> reachable ok (fst (mark_as_done ok self s nts updater now))"

text \<open>
  What such a store keeps, and what the theorems below ask of a store: the index has
  counted every row, one status token at least, and the tokens of the four columns no
  write changes; and every stored timestamp is one the platform converts.
\<close>

definition store_ok :: "(int \<Rightarrow> bool) \<Rightarrow> store \<Rightarrow> bool" where
  "store_ok ok s =
     (\<forall>r \<in> set (ticket_table s).
        1 \<le> fts_rows s \<and> 1 \<le> fts_size s F_status \<and>
        fts_tokens (Some (c_name r)) \<le> fts_size s F_name \<and>
        fts_tokens (Some (c_description r)) \<le> fts_size s F_description \<and>
        fts_tokens (Some (c_project r)) \<le> fts_size s F_project \<and>
        fts_tokens (Some (c_created_by r)) \<le> fts_size s F_created_by \<and>
        ok (c_created_at r) \<and>
        (case c_updated_at r of None \<Rightarrow> True | Some secs \<Rightarrow> secs = 0 \<or> ok secs))"

section \<open>Example data\<close>

text \<open>
  The scenario of the specification on a platform in UTC: alice creates a ticket, bob
  takes it over as DOING and completes it. The search engine of the examples finds
  nothing, and their stand-in for \<^verbatim>\<open>isoformat\<close> writes the epoch seconds.
\<close>

definition no_hits :: fts where
  "no_hits q = Some (\<lambda>i. False)"

definition epoch_text :: "datetime \<Rightarrow> string" where
  "epoch_text dt = format_int (micros dt div 1000000)"

definition login_sizes :: "fts_column \<Rightarrow> nat" where
  "login_sizes c =
     (case c of
        F_name \<Rightarrow> 3 | F_description \<Rightarrow> 0 | F_project \<Rightarrow> 1
      | F_status \<Rightarrow> 1 | F_assigned_to \<Rightarrow> 1 | F_created_by \<Rightarrow> 1)"

definition login_row :: ticket_row where
  "login_row =
     \<lparr> c_rowid = 1,
       c_name = ''Fix login bug'',
       c_description = [],
       c_project = ''web'',
       c_status = ''TODO'',
       c_assigned_to = Some ''alice'',
       c_notes = [],
       c_created_by = ''alice'',
       c_updated_by = None,
       c_created_at = 1700000000,
       c_updated_at = None \<rparr>"

definition login_ticket :: Ticket where
  "login_ticket =
     \<lparr> rowid = 1,
       name = ''Fix login bug'',
       description = [],
       project = ''web'',
       status = ''TODO'',
       assigned_to = Some ''alice'',
       ticket_notes = [],
       created_by = ''alice'',
       updated_by = None,
       created_at = Datetime 1700000000000000,
       updated_at = PyNone \<rparr>"

definition login_store :: store where
  "login_store = \<lparr> ticket_table = [login_row], fts_rows = 1, fts_size = login_sizes \<rparr>"

definition doing_row :: ticket_row where
  "doing_row =
     login_row\<lparr> c_status := ''DOING'', c_assigned_to := Some ''bob'',
                c_updated_by := Some ''bob'', c_updated_at := Some 1700000060 \<rparr>"

definition doing_store :: store where
  "doing_store = \<lparr> ticket_table = [doing_row], fts_rows = 1, fts_size = login_sizes \<rparr>"

definition done_row :: ticket_row where
  "done_row =
     login_row\<lparr> c_status := ''DONE'', c_assigned_to := None, c_notes := ''fixed in v2'',
                c_updated_by := Some ''bob'', c_updated_at := Some 1700000120 \<rparr>"

definition done_ticket :: Ticket where
  "done_ticket =
     login_ticket\<lparr> status := ''DONE'', assigned_to := None, ticket_notes := ''fixed in v2'',
                   updated_by := Some ''bob'',
                   updated_at := PyDatetime (Datetime 1700000120000000) \<rparr>"

definition done_store :: store where
  "done_store = \<lparr> ticket_table = [done_row], fts_rows = 1, fts_size = login_sizes \<rparr>"

text \<open>A store of two rows; the second has the empty string as assignee and creator.\<close>

definition blank_row :: ticket_row where
  "blank_row =
     \<lparr> c_rowid = 2,
       c_name = ''Triage inbox'',
       c_description = [],
       c_project = ''default'',
       c_status = ''TODO'',
       c_assigned_to = Some [],
       c_notes = [],
       c_created_by = [],
       c_updated_by = None,
       c_created_at = 1700000400,
       c_updated_at = None \<rparr>"

definition two_store :: store where
  "two_store =
     \<lparr> ticket_table = [doing_row, blank_row], fts_rows = 2,
       fts_size = (\<lambda>c. login_sizes c + fts_tokens (fts_value c blank_row)) \<rparr>"

text \<open>
  For the proofs about the listing: the conditions that stand in the statement built
  for given filter values, in the order the source appends them.
\<close>

definition present_conds ::
  "string option \<Rightarrow> string option \<Rightarrow> string option \<Rightarrow> cond list" where
  "present_conds st asg creator =
     Const_eq 1 1 #
     (if truthy st then [Column_eq ''status'' ''status''] else []) @
     (if truthy asg then [Column_eq ''assigned_to'' ''assigned_to''] else []) @
     (if truthy creator then [Column_eq ''created_by'' ''created_by''] else [])"

section \<open>Notions for the proofs\<close>

text \<open>
  When the trigger \<^verbatim>\<open>update_ticket\<close> fails for a changed row: the index has counted
  fewer tokens in some column than the new value has, or no row at all.
\<close>

definition fts_rejects :: "store \<Rightarrow> ticket_row \<Rightarrow> bool" where
  "fts_rejects s r =
     ((\<exists>c \<in> set fts_columns. fts_size s c < fts_tokens (fts_value c r)) \<or> fts_rows s < 1)"

text \<open>The rows that \<^verbatim>\<open>row_factory\<close> converts, and the ticket it makes of such a row.\<close>

definition row_ok :: "(int \<Rightarrow> bool) \<Rightarrow> ticket_row \<Rightarrow> bool" where
  "row_ok ok r =
     (ok (c_created_at r) \<and> (case c_updated_at r of None \<Rightarrow> True | Some secs \<Rightarrow> secs = 0 \<or> ok secs))"

definition ticket_of :: "ticket_row \<Rightarrow> Ticket" where
  "ticket_of r =
     \<lparr> rowid = c_rowid r,
       name = c_name r,
       description = c_description r,
       project = c_project r,
       status = c_status r,
       assigned_to = c_assigned_to r,
       ticket_notes = c_notes r,
       created_by = c_created_by r,
       updated_by = c_updated_by r,
       created_at = Datetime (c_created_at r * 1000000),
       updated_at =
         (case c_updated_at r of
            None \<Rightarrow> PyNone
          | Some secs \<Rightarrow> if secs \<noteq> 0 then PyDatetime (Datetime (secs * 1000000)) else PyZero) \<rparr>"

text \<open>
  The common shape of \<^verbatim>\<open>assign_to\<close> and \<^verbatim>\<open>mark_as_done\<close>, one UPDATE of the row and the
  conversion of the row returned, and the assignments of each.
\<close>

definition write_row ::
  "(int \<Rightarrow> bool) \<Rightarrow> (ticket_row \<Rightarrow> ticket_row) \<Rightarrow> int \<Rightarrow> store \<Rightarrow> store \<times> (error + Ticket option)" where
  "write_row ok f rid s =
     (case update_by_rowid f rid s of
        Inl e \<Rightarrow> (s, Inl e)
      | Inr (s', returned) \<Rightarrow>
          (case fetchone (row_factory ok) returned of
             Inl e \<Rightarrow> (s, Inl e)
           | Inr ticket \<Rightarrow> (s', Inr ticket)))"

definition set_assignment :: "string \<Rightarrow> string option \<Rightarrow> string \<Rightarrow> datetime \<Rightarrow> ticket_row \<Rightarrow> ticket_row" where
  "set_assignment st asg updater now r =
     r\<lparr> c_status := st, c_assigned_to := asg, c_updated_by := Some updater,
        c_updated_at := Some (adapt_datetime_epoch now) \<rparr>"

definition set_done :: "string \<Rightarrow> string \<Rightarrow> datetime \<Rightarrow> ticket_row \<Rightarrow> ticket_row" where
  "set_done nts updater now r =
     r\<lparr> c_status := DONE, c_notes := nts, c_assigned_to := None, c_updated_by := Some updater,
        c_updated_at := Some (adapt_datetime_epoch now) \<rparr>"

text \<open>What the two assignments keep of a row.\<close>

definition keeps_frame :: "(ticket_row \<Rightarrow> ticket_row) \<Rightarrow> bool" where
  "keeps_frame f =
     (\<forall>r. c_rowid (f r) = c_rowid r \<and> c_name (f r) = c_name r \<and>
          c_description (f r) = c_description r \<and> c_project (f r) = c_project r \<and>
          c_created_by (f r) = c_created_by r \<and> c_created_at (f r) = c_created_at r)"

text \<open>The tickets of two of the example rows.\<close>

definition doing_ticket :: Ticket where
  "doing_ticket =
     login_ticket\<lparr> status := ''DOING'', assigned_to := Some ''bob'', updated_by := Some ''bob'',
                    updated_at := PyDatetime (Datetime 1700000060000000) \<rparr>"

definition blank_ticket :: Ticket where
  "blank_ticket =
     \<lparr> rowid = 2,
       name = ''Triage inbox'',
       description = [],
       project = ''default'',
       status = ''TODO'',
       assigned_to = Some [],
       ticket_notes = [],
       created_by = [],
       updated_by = None,
       created_at = Datetime 1700000400000000,
       updated_at = PyNone \<rparr>"

section \<open>The triggers\<close>

lemma fts_columns_all: "c \<in> set fts_columns"
  by (cases c) (simp_all add: fts_columns_def)

lemma fts_rejects_table [simp]: "fts_rejects (s\<lparr> ticket_table := rows \<rparr>) r = fts_rejects s r"
  by (simp add: fts_rejects_def)

lemma update_ticket_eq:
  "update_ticket s r = (if fts_rejects s r then Inl DatabaseError else Inr s)"
proof (cases "fts_rejects s r")
  case True
  then show ?thesis
    by (simp add: update_ticket_def fts_delete_def fts_rejects_def)
next
  case False
  then have sizes: "fts_tokens (fts_value c r) \<le> fts_size s c" for c
    using fts_columns_all [of c] by (auto simp: fts_rejects_def not_less)
  from False have rows: "1 \<le> fts_rows s"
    by (simp add: fts_rejects_def)
  have "(\<lambda>c. fts_size s c - fts_tokens (fts_value c r) + fts_tokens (fts_value c r)) = fts_size s"
    using sizes by (intro ext) simp
  then show ?thesis
    using False rows
    by (simp add: update_ticket_def fts_delete_def fts_insert_def fts_rejects_def)
qed

lemma after_update_eq:
  "after_update s rs = (if \<exists>r \<in> set rs. fts_rejects s r then Inl DatabaseError else Inr s)"
  by (induction rs) (simp_all add: update_ticket_eq)

lemma update_by_rowid_eq:
  "update_by_rowid f rid s =
     (if \<exists>r \<in> set (select_by_rowid rid (ticket_table s)). fts_rejects s (f r)
      then Inl DatabaseError
      else Inr (s\<lparr> ticket_table := map (\<lambda>r. if c_rowid r = rid then f r else r) (ticket_table s) \<rparr>,
                map f (select_by_rowid rid (ticket_table s))))"
  by (simp add: update_by_rowid_def Let_def after_update_eq)

section \<open>Reading one row\<close>

lemma select_by_rowid_empty_iff:
  "select_by_rowid rid rows = [] \<longleftrightarrow> rid \<notin> c_rowid ` set rows"
  by (auto simp: select_by_rowid_def filter_empty_conv)

lemma select_by_rowid_map:
  assumes "\<And>r. c_rowid (g r) = c_rowid r"
  shows "select_by_rowid rid (map g rows) = map g (select_by_rowid rid rows)"
  using assms by (induction rows) (simp_all add: select_by_rowid_def)

lemma select_by_rowid_set: "r \<in> set (select_by_rowid rid rows) \<Longrightarrow> r \<in> set rows \<and> c_rowid r = rid"
  by (simp add: select_by_rowid_def)

lemma select_by_rowid_update:
  assumes "\<And>r. c_rowid (f r) = c_rowid r"
  shows "select_by_rowid rid' (map (\<lambda>r. if c_rowid r = rid then f r else r) rows) =
           (if rid' = rid then map f (select_by_rowid rid' rows) else select_by_rowid rid' rows)"
proof (cases "rid' = rid")
  case True
  then show ?thesis
    using assms by (induction rows) (simp_all add: select_by_rowid_def)
next
  case False
  then show ?thesis
    using assms by (induction rows) (simp_all add: select_by_rowid_def)
qed

section \<open>The row factory\<close>

lemma row_factory_eq:
  "row_factory ok r = (if row_ok ok r then Inr (ticket_of r) else Inl ValueError)"
  by (cases "c_updated_at r")
    (auto simp: row_factory_def fromtimestamp_def row_ok_def ticket_of_def)

lemma fetchone_row_factory:
  "fetchone (row_factory ok) rows =
     (case rows of
        [] \<Rightarrow> Inr None
      | r # _ \<Rightarrow> if row_ok ok r then Inr (Some (ticket_of r)) else Inl ValueError)"
  by (cases rows) (simp_all add: fetchone_def row_factory_eq)

lemma fetchall_row_factory:
  "list_all (row_ok ok) rows \<Longrightarrow> fetchall (row_factory ok) rows = Inr (map ticket_of rows)"
  by (induction rows) (simp_all add: row_factory_eq)

lemma fetchall_Inr_row_ok:
  "fetchall (row_factory ok) rows = Inr ts \<Longrightarrow> list_all (row_ok ok) rows \<and> ts = map ticket_of rows"
  by (induction rows arbitrary: ts) (auto simp: row_factory_eq split: if_splits sum.splits)

lemma store_ok_row_ok: "store_ok ok s \<Longrightarrow> r \<in> set (ticket_table s) \<Longrightarrow> row_ok ok r"
  by (auto simp: store_ok_def row_ok_def)

lemma store_ok_rows: "store_ok ok s \<Longrightarrow> list_all (row_ok ok) (ticket_table s)"
  by (simp add: list_all_iff store_ok_row_ok)

section \<open>The writers\<close>

lemma assign_to_write:
  "assign_to ok self s st asg updater now =
     write_row ok (set_assignment st asg updater now) (rowid self) s"
  by (simp add: assign_to_def write_row_def set_assignment_def [abs_def])

lemma mark_as_done_write:
  "mark_as_done ok self s nts updater now = write_row ok (set_done nts updater now) (rowid self) s"
  by (simp add: mark_as_done_def write_row_def set_done_def [abs_def])

lemma keeps_frame_set_assignment: "keeps_frame (set_assignment st asg updater now)"
  by (simp add: keeps_frame_def set_assignment_def)

lemma keeps_frame_set_done: "keeps_frame (set_done nts updater now)"
  by (simp add: keeps_frame_def set_done_def)

lemma write_row_eq:
  "write_row ok f rid s =
     (if \<exists>r \<in> set (select_by_rowid rid (ticket_table s)). fts_rejects s (f r)
      then (s, Inl DatabaseError)
      else case fetchone (row_factory ok) (map f (select_by_rowid rid (ticket_table s))) of
             Inl e \<Rightarrow> (s, Inl e)
           | Inr ticket \<Rightarrow>
               (s\<lparr> ticket_table := map (\<lambda>r. if c_rowid r = rid then f r else r) (ticket_table s) \<rparr>,
                Inr ticket))"
  by (simp add: write_row_def update_by_rowid_eq)

lemma write_row_store:
  "fst (write_row ok f rid s) = s \<or>
   fst (write_row ok f rid s) =
     s\<lparr> ticket_table := map (\<lambda>r. if c_rowid r = rid then f r else r) (ticket_table s) \<rparr>"
  by (simp add: write_row_eq split: sum.splits)

lemma write_row_failed:
  "snd (write_row ok f rid s) = Inl e \<Longrightarrow> fst (write_row ok f rid s) = s"
  by (auto simp: write_row_eq split: sum.splits if_splits)

section \<open>What every store of the program keeps\<close>

lemma store_ok_empty: "store_ok ok empty_store"
  by (simp add: store_ok_def empty_store_def)

lemma fts_tokens_TODO: "fts_tokens (Some TODO) = 1"
  by (simp add: fts_tokens_def TODO_def token_char_def)

lemma fts_tokens_DOING: "fts_tokens (Some DOING) = 1"
  by (simp add: fts_tokens_def DOING_def token_char_def)

lemma fts_tokens_DONE: "fts_tokens (Some DONE) = 1"
  by (simp add: fts_tokens_def DONE_def token_char_def)

lemma fts_tokens_None: "fts_tokens None = 0"
  by (simp add: fts_tokens_def)

lemma store_ok_new:
  assumes "store_ok ok s"
  shows "store_ok ok (fst (Ticket_new ok s nm descr proj asg creator now))"
proof (cases "ok (adapt_datetime_epoch now)")
  case False
  then show ?thesis
    using assms by (simp add: Ticket_new_def Let_def fetchone_row_factory row_ok_def)
next
  case True
  then show ?thesis
    using assms
    by (auto simp: Ticket_new_def Let_def fetchone_row_factory row_ok_def store_ok_def
        insert_ticket_def fts_insert_def fts_value_def fts_tokens_TODO
        intro: trans_le_add1)
qed

lemma store_ok_write_row:
  assumes inv: "store_ok ok s" and frame: "keeps_frame f"
    and stamp: "\<And>r. c_updated_at (f r) = Some u"
  shows "store_ok ok (fst (write_row ok f rid s))"
proof (cases "fst (write_row ok f rid s) = s")
  case True
  then show ?thesis using inv by simp
next
  case False
  have no_reject: "\<not> (\<exists>r \<in> set (select_by_rowid rid (ticket_table s)). fts_rejects s (f r))"
  proof
    assume "\<exists>r \<in> set (select_by_rowid rid (ticket_table s)). fts_rejects s (f r)"
    then have "fst (write_row ok f rid s) = s"
      by (simp add: write_row_eq)
    with False show False by simp
  qed
  have nonempty: "select_by_rowid rid (ticket_table s) \<noteq> []"
  proof
    assume "select_by_rowid rid (ticket_table s) = []"
    then have "map (\<lambda>r. if c_rowid r = rid then f r else r) (ticket_table s) = ticket_table s"
      by (auto simp: select_by_rowid_def filter_empty_conv intro: map_idI)
    then have "fst (write_row ok f rid s) = s"
      using write_row_store [of ok f rid s] by auto
    with False show False by simp
  qed
  then obtain r rs where hit: "select_by_rowid rid (ticket_table s) = r # rs"
    by (cases "select_by_rowid rid (ticket_table s)") auto
  have first: "row_ok ok (f r)"
  proof (rule ccontr)
    assume "\<not> row_ok ok (f r)"
    then have "fst (write_row ok f rid s) = s"
      by (simp add: write_row_eq fetchone_row_factory hit)
    with False show False by simp
  qed
  from first stamp [of r] have u: "u = 0 \<or> ok u"
    by (simp add: row_ok_def)
  have store: "fst (write_row ok f rid s) =
      s\<lparr> ticket_table := map (\<lambda>r. if c_rowid r = rid then f r else r) (ticket_table s) \<rparr>"
    using False write_row_store [of ok f rid s] by blast
  show ?thesis
    unfolding store using inv frame u stamp
    by (auto simp: store_ok_def keeps_frame_def)
qed

lemma store_ok_assign_to:
  "store_ok ok s \<Longrightarrow> store_ok ok (fst (assign_to ok self s st asg updater now))"
  unfolding assign_to_write
  by (rule store_ok_write_row [OF _ keeps_frame_set_assignment]) (simp_all add: set_assignment_def)

lemma store_ok_mark_as_done:
  "store_ok ok s \<Longrightarrow> store_ok ok (fst (mark_as_done ok self s nts updater now))"
  unfolding mark_as_done_write
  by (rule store_ok_write_row [OF _ keeps_frame_set_done]) (simp_all add: set_done_def)

lemma reachable_store_ok: "reachable ok s \<Longrightarrow> store_ok ok s"
  by (induction rule: reachable.induct)
    (simp_all add: store_ok_empty store_ok_new store_ok_assign_to store_ok_mark_as_done)

text \<open>When a write goes through.\<close>

lemma write_row_succeeds:
  assumes inv: "store_ok ok s" and frame: "keeps_frame f"
    and stamp: "\<And>r. c_updated_at (f r) = Some u" and u: "u = 0 \<or> ok u"
    and status: "\<And>r. fts_tokens (Some (c_status (f r))) \<le> fts_size s F_status"
    and assignee: "\<And>r. fts_tokens (c_assigned_to (f r)) \<le> fts_size s F_assigned_to"
    and hit: "rid \<in> c_rowid ` set (ticket_table s)"
  shows "\<exists>r. r \<in> set (ticket_table s) \<and> c_rowid r = rid \<and>
             fetchone (row_factory ok) (select_by_rowid rid (ticket_table s)) = Inr (Some (ticket_of r)) \<and>
             write_row ok f rid s =
               (s\<lparr> ticket_table := map (\<lambda>r. if c_rowid r = rid then f r else r) (ticket_table s) \<rparr>,
                Inr (Some (ticket_of (f r)))) \<and>
             fetchone (row_factory ok)
               (select_by_rowid rid (map (\<lambda>r. if c_rowid r = rid then f r else r) (ticket_table s))) =
               Inr (Some (ticket_of (f r)))"
proof -
  from hit obtain r rs where sel: "select_by_rowid rid (ticket_table s) = r # rs"
    using select_by_rowid_empty_iff [of rid "ticket_table s"]
    by (cases "select_by_rowid rid (ticket_table s)") auto
  then have r: "r \<in> set (ticket_table s)" "c_rowid r = rid"
    using select_by_rowid_set [of r rid "ticket_table s"] by simp_all
  have accepted: "\<not> fts_rejects s (f r')" if "r' \<in> set (ticket_table s)" for r'
  proof -
    have "fts_tokens (fts_value c (f r')) \<le> fts_size s c" for c
      using inv that frame status [of r'] assignee [of r']
      by (cases c) (auto simp: store_ok_def keeps_frame_def fts_value_def)
    moreover have "1 \<le> fts_rows s"
      using inv that by (auto simp: store_ok_def)
    ultimately show ?thesis
      by (auto simp: fts_rejects_def not_less)
  qed
  then have no_reject: "\<not> (\<exists>r \<in> set (select_by_rowid rid (ticket_table s)). fts_rejects s (f r))"
    using select_by_rowid_set [of _ rid "ticket_table s"] by blast
  have old: "row_ok ok r"
    using inv r by (simp add: store_ok_row_ok)
  then have new: "row_ok ok (f r)"
    using frame stamp [of r] u by (simp add: row_ok_def keeps_frame_def)
  have keep: "\<And>r. c_rowid (f r) = c_rowid r"
    using frame by (simp add: keeps_frame_def)
  show ?thesis
    using r old new no_reject
    by (intro exI [of _ r])
      (simp add: write_row_eq fetchone_row_factory sel select_by_rowid_update [OF keep])
qed

section \<open>The adapter\<close>

declare bitlen.simps [simp del]

lemma mult_swap: "(a::nat) * D * K = a * K * D"
  by (simp only: mult.assoc mult.commute [of D K])

lemma scaled_quotient:
  fixes m D K N :: nat
  assumes D: "0 < D" and K: "0 < K"
    and lo: "(m * K) div D \<le> N" and hi: "N \<le> (m * K) div D + 1"
    and exact: "(m * K) mod D = 0 \<Longrightarrow> N = (m * K) div D"
  shows "N div K = m div D \<or> (N div K = m div D + 1 \<and> m mod D \<noteq> 0)"
proof -
  define s where "s = m div D"
  define t where "t = s + 1"
  have "s * D \<le> m" by (simp add: s_def)
  then have "s * D * K \<le> m * K" by (rule mult_le_mono1)
  then have "s * K * D \<le> m * K" by (simp only: mult_swap)
  then have q_lo: "s * K \<le> (m * K) div D"
    using D by (simp only: less_eq_div_iff_mult_less_eq)
  have "m < t * D"
    unfolding t_def s_def using D by (simp add: dividend_less_times_div mult.commute)
  then have "m * K < t * D * K" using K by (rule mult_less_mono1)
  then have "m * K < t * K * D" by (simp only: mult_swap)
  then have q_hi: "(m * K) div D < t * K"
    using D by (simp only: less_mult_imp_div_less)
  have N_lo: "s * K \<le> N" using q_lo lo by simp
  have N_hi: "N \<le> t * K" using q_hi hi by simp
  have R_lo: "s \<le> N div K"
    using N_lo K by (simp only: less_eq_div_iff_mult_less_eq)
  have "N div K \<le> (t * K) div K" using N_hi by (rule div_le_mono)
  then have R_hi: "N div K \<le> t" using K by simp
  have "m mod D \<noteq> 0" if top: "N div K = t"
  proof
    assume "m mod D = 0"
    then have "D dvd m" by (simp only: dvd_eq_mod_eq_0)
    then have "D dvd m * K" by (rule dvd_mult2)
    then have "(m * K) mod D = 0" by (simp only: dvd_eq_mod_eq_0)
    then have "N = (m * K) div D" by (rule exact)
    with q_hi have "N < t * K" by simp
    then have "N div K < t"
      using K by (simp only: less_mult_imp_div_less)
    with top show False by simp
  qed
  with R_lo R_hi have "N div K = s \<or> (N div K = t \<and> m mod D \<noteq> 0)"
    unfolding t_def by (cases "N div K = s") auto
  then show ?thesis
    unfolding t_def s_def .
qed

lemma round_half_even_bounds:
  "a div d \<le> round_half_even a d \<and> round_half_even a d \<le> a div d + 1"
  by (simp add: round_half_even_def Let_def)

lemma round_half_even_exact: "a mod d = 0 \<Longrightarrow> round_half_even a d = a div d"
  by (cases "d = 0") (simp_all add: round_half_even_def Let_def)

lemma int_of_seconds_cases:
  "int_of_seconds m = m div 1000000 \<or>
   (int_of_seconds m = m div 1000000 + 1 \<and> m mod 1000000 \<noteq> 0)"
proof -
  define k where "k = 53 - bitlen (m div 1000000)"
  have eq: "int_of_seconds m = round_half_even (m * 2 ^ k) 1000000 div 2 ^ k"
    by (simp add: int_of_seconds_def Let_def k_def)
  show ?thesis
    unfolding eq
  proof (rule scaled_quotient)
    show "(0::nat) < 1000000" by simp
    show "(0::nat) < 2 ^ k" by simp
    show "m * 2 ^ k div 1000000 \<le> round_half_even (m * 2 ^ k) 1000000"
      using round_half_even_bounds by blast
    show "round_half_even (m * 2 ^ k) 1000000 \<le> m * 2 ^ k div 1000000 + 1"
      using round_half_even_bounds by blast
    show "round_half_even (m * 2 ^ k) 1000000 = m * 2 ^ k div 1000000"
      if "m * 2 ^ k mod 1000000 = 0"
      using that by (rule round_half_even_exact)
  qed
qed

lemma int_of_seconds_within:
  "\<bar>int (int_of_seconds m) * 1000000 - int m\<bar> < 1000000"
proof -
  define s where "s = int (m div 1000000)"
  define r where "r = int (m mod 1000000)"
  define R where "R = int (int_of_seconds m)"
  have "int m = int (m div 1000000 * 1000000 + m mod 1000000)"
    by (simp only: div_mult_mod_eq)
  then have m: "int m = s * 1000000 + r"
    by (simp only: s_def r_def of_nat_add of_nat_mult of_nat_numeral)
  have r: "0 \<le> r" "r < 1000000"
    by (simp_all add: r_def)
  from int_of_seconds_cases [of m]
  have "R = s \<or> (R = s + 1 \<and> r \<noteq> 0)"
    unfolding R_def s_def r_def by auto
  then have "\<bar>R * 1000000 - int m\<bar> < 1000000"
    using m r by (elim disjE conjE) linarith+
  then show ?thesis
    by (simp only: R_def)
qed

lemma adapt_within_second:
  "\<bar>adapt_datetime_epoch now * 1000000 - micros now\<bar> < 1000000"
proof (cases "0 \<le> micros now")
  case True
  then have "int (nat (micros now)) = micros now" by simp
  then show ?thesis
    using True int_of_seconds_within [of "nat (micros now)"]
    by (simp only: adapt_datetime_epoch_def if_True)
next
  case False
  then have eq: "int (nat (- micros now)) = - micros now" by simp
  have "\<bar>- int (int_of_seconds (nat (- micros now))) * 1000000 - micros now\<bar> =
        \<bar>int (int_of_seconds (nat (- micros now))) * 1000000 - int (nat (- micros now))\<bar>"
    unfolding eq by linarith
  then show ?thesis
    using False int_of_seconds_within [of "nat (- micros now)"]
    by (simp only: adapt_datetime_epoch_def if_False)
qed

section \<open>Inserting a row\<close>

lemma rowid_below_next: "r \<in> set rows \<Longrightarrow> c_rowid r < next_rowid rows"
proof -
  assume r: "r \<in> set rows"
  then have "c_rowid r \<le> Max (set (map c_rowid rows))"
    by (intro Max_ge) auto
  moreover from r have "rows \<noteq> []" by auto
  ultimately show ?thesis by (simp add: next_rowid_def)
qed

lemma select_next_rowid: "select_by_rowid (next_rowid rows) rows = []"
  using rowid_below_next [of _ rows] by (force simp: select_by_rowid_def filter_empty_conv)

lemma Ticket_new_eq:
  "Ticket_new ok s nm descr proj asg creator now =
     (let row = \<lparr> c_rowid = next_rowid (ticket_table s), c_name = nm, c_description = descr,
                  c_project = proj, c_status = TODO, c_assigned_to = asg, c_notes = [],
                  c_created_by = creator, c_updated_by = None,
                  c_created_at = adapt_datetime_epoch now, c_updated_at = None \<rparr>
      in if ok (adapt_datetime_epoch now)
         then (fts_insert (s\<lparr> ticket_table := ticket_table s @ [row] \<rparr>) row,
               Inr (Some (ticket_of row)))
         else (s, Inl ValueError))"
  by (simp add: Ticket_new_def Let_def fetchone_row_factory row_ok_def insert_ticket_def)

section \<open>The statement of the listing, read from its text\<close>

lemma query_sql:
  "fst (list_tickets_query st search asg creator) =
     select_head @ (if truthy search then fts_join else []) @ where_true @
     (if truthy st then and_status else []) @
     (if truthy asg then and_assigned_to else []) @
     (if truthy creator then and_created_by else [])"
  by (simp add: list_tickets_query_def)

lemma parse_select_query:
  "parse_select (sql_words (fst (list_tickets_query st search asg creator))) =
     Some \<lparr> sel_columns = table_columns,
            sel_match = (if truthy search then Some ''search'' else None),
            sel_conds = present_conds st asg creator \<rparr>"
  by (cases "truthy search"; cases "truthy st"; cases "truthy asg"; cases "truthy creator")
    (simp_all add: query_sql present_conds_def sql_words_def select_head_def fts_join_def
      where_true_def and_status_def and_assigned_to_def and_created_by_def is_space_def
      parse_select_def column_ref_def param_ref_def int_literal_def parse_cond_def
      table_columns_def)

text \<open>The parameters bound and the rows selected.\<close>

lemma truthy_the: "truthy x \<Longrightarrow> Some (the x) = x"
  by (cases x) (simp_all add: truthy_def)

lemma truthy_not_None: "truthy x \<Longrightarrow> x \<noteq> None"
  by (cases x) (simp_all add: truthy_def)

lemma truthy_Some: "truthy x \<Longrightarrow> \<exists>y. x = Some y"
  by (cases x) (simp_all add: truthy_def)

lemma query_params:
  "snd (list_tickets_query st search asg creator) k =
     (if k = ''created_by'' \<and> truthy creator then creator
      else if k = ''assigned_to'' \<and> truthy asg then asg
      else if k = ''status'' \<and> truthy st then st
      else if k = ''search'' \<and> truthy search then search
      else None)"
  by (cases "truthy search"; cases "truthy st"; cases "truthy asg"; cases "truthy creator")
     (simp_all add: list_tickets_query_def truthy_the)

lemma params_status:
  "snd (list_tickets_query st search asg creator) ''status'' = (if truthy st then st else None)"
  by (simp add: query_params)

lemma params_assigned_to:
  "snd (list_tickets_query st search asg creator) ''assigned_to'' =
     (if truthy asg then asg else None)"
  by (simp add: query_params)

lemma params_created_by:
  "snd (list_tickets_query st search asg creator) ''created_by'' =
     (if truthy creator then creator else None)"
  by (simp add: query_params)

lemma params_search:
  "snd (list_tickets_query st search asg creator) ''search'' =
     (if truthy search then search else None)"
  by (simp add: query_params)

lemmas params_lookup = params_status params_assigned_to params_created_by params_search

lemma text_column_status: "text_column ''status'' = Some (\<lambda>r. Some (c_status r))"
  by (simp add: text_column_def)

lemma text_column_assigned_to: "text_column ''assigned_to'' = Some c_assigned_to"
  by (simp add: text_column_def)

lemma text_column_created_by: "text_column ''created_by'' = Some (\<lambda>r. Some (c_created_by r))"
  by (simp add: text_column_def)

lemmas text_columns = text_column_status text_column_assigned_to text_column_created_by

lemma conds_known: "list_all cond_known (present_conds st asg creator)"
  by (simp add: present_conds_def cond_known_def text_columns)

lemma conds_bound:
  "list_all (cond_bound (snd (list_tickets_query st search asg creator)))
     (present_conds st asg creator)"
  by (simp add: present_conds_def cond_bound_def params_lookup truthy_Some)

lemma conds_hold:
  "list_all (\<lambda>c. cond_holds (snd (list_tickets_query st search asg creator)) c r)
     (present_conds st asg creator) \<longleftrightarrow>
   ((truthy st \<longrightarrow> Some (c_status r) = st) \<and>
    (truthy asg \<longrightarrow> c_assigned_to r = asg) \<and>
    (truthy creator \<longrightarrow> Some (c_created_by r) = creator))"
  by (cases "truthy st"; cases "truthy asg"; cases "truthy creator")
    (auto simp: present_conds_def cond_holds_def text_columns params_lookup
      dest: truthy_not_None)

lemma headers_complete: "list_all (\<lambda>n. n \<in> set table_columns) factory_columns"
  by (simp add: table_columns_def factory_columns_def)

lemma columns_known: "list_all (\<lambda>n. n \<in> set table_columns) table_columns"
  by (simp add: list_all_iff)

lemma cursor_row_factory_all: "cursor_row_factory table_columns ok = row_factory ok"
  by (rule ext) (simp add: cursor_row_factory_def headers_complete)

lemma fetch_no_search:
  assumes "\<not> truthy search"
  shows "list_tickets_fetch match ok s st search asg creator =
     fetchall (row_factory ok) (filter (\<lambda>r.
        (truthy st \<longrightarrow> Some (c_status r) = st) \<and>
        (truthy asg \<longrightarrow> c_assigned_to r = asg) \<and>
        (truthy creator \<longrightarrow> Some (c_created_by r) = creator)) (ticket_table s))"
proof -
  obtain sql ps where q: "list_tickets_query st search asg creator = (sql, ps)"
    by (cases "list_tickets_query st search asg creator")
  have sql: "parse_select (sql_words sql) =
      Some \<lparr> sel_columns = table_columns, sel_match = None,
             sel_conds = present_conds st asg creator \<rparr>"
    using parse_select_query [of st search asg creator] q assms by simp
  have ps: "ps = snd (list_tickets_query st search asg creator)"
    using q by simp
  have "execute_select match s sql ps =
          Inr (table_columns,
               filter (\<lambda>r. list_all (\<lambda>c. cond_holds ps c r) (present_conds st asg creator))
                 (ticket_table s))"
    by (simp add: execute_select_def sql columns_known conds_known conds_bound ps)
  then show ?thesis
    unfolding list_tickets_fetch_def q
    by (simp add: ps conds_hold cursor_row_factory_all)
qed

lemma fetchall_filter:
  assumes "fetchall factory rows = Inr all"
    and "\<And>r t. factory r = Inr t \<Longrightarrow> P r \<longleftrightarrow> Q t"
  shows "fetchall factory (filter P rows) = Inr (filter Q all)"
  using assms
proof (induction rows arbitrary: all)
  case Nil
  then show ?case by simp
next
  case (Cons r rows)
  from Cons.prems(1) obtain t ts where t: "factory r = Inr t"
    and ts: "fetchall factory rows = Inr ts" and all: "all = t # ts"
    by (auto split: sum.splits)
  have "fetchall factory (filter P rows) = Inr (filter Q ts)"
    using Cons.IH [OF ts] Cons.prems(2) by blast
  then show ?case
    using t Cons.prems(2) [OF t] by (simp add: all)
qed

section \<open>The example stores\<close>

lemma adapt_examples:
  "adapt_datetime_epoch (Datetime 1700000000123456) = 1700000000"
  "adapt_datetime_epoch (Datetime 1700000060000000) = 1700000060"
  "adapt_datetime_epoch (Datetime 1700000120500000) = 1700000120"
  "adapt_datetime_epoch (Datetime 1700000300000000) = 1700000300"
  "adapt_datetime_epoch (Datetime 32503680000999999) = 32503680001"
  "adapt_datetime_epoch (Datetime 253402300799999999) = 253402300800"
  by (simp_all add: adapt_datetime_epoch_def int_of_seconds_def round_half_even_def Let_def
      bitlen.simps)

lemma example_tokens:
  "fts_tokens (Some ''Fix login bug'') = 3" "fts_tokens (Some []) = 0"
  "fts_tokens (Some ''web'') = 1" "fts_tokens (Some ''alice'') = 1"
  "fts_tokens (Some ''bob'') = 1" "fts_tokens (Some ''carol'') = 1"
  "fts_tokens (Some ''carol jones'') = 2"
  "fts_tokens (Some ''Triage inbox'') = 2" "fts_tokens (Some ''default'') = 1"
  "fts_tokens (Some ''TODO'') = 1" "fts_tokens (Some ''DOING'') = 1"
  "fts_tokens (Some ''DONE'') = 1"
  by (simp_all add: fts_tokens_def token_char_def)

lemma login_store_built:
  "Ticket_new utc_localtime_ok empty_store ''Fix login bug'' [] ''web'' (Some ''alice'') ''alice''
     (Datetime 1700000000123456) = (login_store, Inr (Some login_ticket))"
proof -
  have "(\<lambda>c. fts_tokens (fts_value c login_row)) = login_sizes"
    by (rule ext, case_tac c)
      (simp_all add: login_sizes_def fts_value_def login_row_def example_tokens fts_tokens_None)
  then show ?thesis
    by (simp add: Ticket_new_eq adapt_examples utc_localtime_ok_def next_rowid_def empty_store_def
        fts_insert_def login_store_def login_row_def [symmetric] TODO_def)
      (simp add: ticket_of_def login_row_def login_ticket_def)
qed

lemma login_store_get:
  "Ticket_get utc_localtime_ok login_store 1 = Inr (Some login_ticket)"
  by (simp add: Ticket_get_def login_store_def select_by_rowid_def login_row_def
      fetchone_row_factory row_ok_def utc_localtime_ok_def ticket_of_def login_ticket_def)

lemma login_sizes_values:
  "login_sizes F_name = 3" "login_sizes F_description = 0" "login_sizes F_project = 1"
  "login_sizes F_status = 1" "login_sizes F_assigned_to = 1" "login_sizes F_created_by = 1"
  by (simp_all add: login_sizes_def)

lemma store_ok_login: "store_ok utc_localtime_ok login_store"
  by (simp add: store_ok_def login_store_def login_row_def login_sizes_values example_tokens
      utc_localtime_ok_def)

lemma store_ok_doing: "store_ok utc_localtime_ok doing_store"
  by (simp add: store_ok_def doing_store_def doing_row_def login_row_def login_sizes_values
      example_tokens utc_localtime_ok_def)

lemma store_ok_done: "store_ok utc_localtime_ok done_store"
  by (simp add: store_ok_def done_store_def done_row_def login_row_def login_sizes_values
      example_tokens utc_localtime_ok_def)

lemma doing_store_built:
  "assign_to utc_localtime_ok login_ticket login_store DOING (Some ''bob'') ''bob''
     (Datetime 1700000060000000) = (doing_store, Inr (Some doing_ticket))"
  by (simp add: assign_to_write write_row_eq login_ticket_def login_store_def select_by_rowid_def
      login_row_def fts_rejects_def fts_columns_def fts_value_def set_assignment_def
      login_sizes_values example_tokens fts_tokens_DOING adapt_examples fetchone_row_factory
      row_ok_def utc_localtime_ok_def doing_store_def doing_row_def DOING_def)
    (simp add: ticket_of_def doing_ticket_def login_ticket_def)

lemma done_store_built:
  "mark_as_done utc_localtime_ok doing_ticket doing_store ''fixed in v2'' ''bob''
     (Datetime 1700000120500000) = (done_store, Inr (Some done_ticket))"
  by (simp add: mark_as_done_write write_row_eq doing_ticket_def login_ticket_def doing_store_def
      select_by_rowid_def doing_row_def login_row_def fts_rejects_def fts_columns_def fts_value_def
      set_done_def login_sizes_values example_tokens fts_tokens_DONE fts_tokens_None adapt_examples
      fetchone_row_factory row_ok_def utc_localtime_ok_def done_store_def done_row_def DONE_def)
    (simp add: ticket_of_def done_ticket_def login_ticket_def)

lemma reachable_login: "reachable utc_localtime_ok login_store"
  using reachable_new [OF reachable_empty, of utc_localtime_ok "''Fix login bug''" "[]" "''web''"
      "Some ''alice''" "''alice''" "Datetime 1700000000123456"]
  by (simp add: login_store_built)

lemma reachable_doing: "reachable utc_localtime_ok doing_store"
  using reachable_assign_to [OF reachable_login, of login_ticket DOING "Some ''bob''" "''bob''"
      "Datetime 1700000060000000"]
  by (simp add: doing_store_built)

lemma reachable_done: "reachable utc_localtime_ok done_store"
  using reachable_mark_as_done [OF reachable_doing, of doing_ticket "''fixed in v2''" "''bob''"
      "Datetime 1700000120500000"]
  by (simp add: done_store_built)

section \<open>Completion\<close>

text \<open>
  Claim C1. For every ticket whose row is in a store of the program, whatever its
  status, assignee and notes before, and a current time whose seconds the platform
  converts back, \<^verbatim>\<open>mark_as_done\<close> returns a ticket with status DONE, no assignee and the
  supplied notes, and \<^verbatim>\<open>Ticket.get\<close> then reads that same ticket from the updated store.
\<close>

theorem mark_as_done_completes:
  assumes "store_ok ok s" and "rowid self \<in> c_rowid ` set (ticket_table s)"
    and "ok (adapt_datetime_epoch now)"
  shows "\<exists>s' t. mark_as_done ok self s nts updater now = (s', Inr (Some t)) \<and>
           status t = DONE \<and> assigned_to t = None \<and> ticket_notes t = nts \<and>
           Ticket_get ok s' (rowid self) = Inr (Some t)"
proof -
  from assms(2) obtain r0 where r0: "r0 \<in> set (ticket_table s)" by auto
  with assms(1) have size: "1 \<le> fts_size s F_status"
    by (auto simp: store_ok_def)
  have "\<exists>r. r \<in> set (ticket_table s) \<and> c_rowid r = rowid self \<and>
          fetchone (row_factory ok) (select_by_rowid (rowid self) (ticket_table s)) =
            Inr (Some (ticket_of r)) \<and>
          write_row ok (set_done nts updater now) (rowid self) s =
            (s\<lparr> ticket_table :=
                 map (\<lambda>r. if c_rowid r = rowid self then set_done nts updater now r else r)
                   (ticket_table s) \<rparr>,
             Inr (Some (ticket_of (set_done nts updater now r)))) \<and>
          fetchone (row_factory ok)
            (select_by_rowid (rowid self)
               (map (\<lambda>r. if c_rowid r = rowid self then set_done nts updater now r else r)
                  (ticket_table s))) =
            Inr (Some (ticket_of (set_done nts updater now r)))"
    using assms size
    by (intro write_row_succeeds [OF _ keeps_frame_set_done, where u = "adapt_datetime_epoch now"])
      (simp_all add: set_done_def fts_tokens_DONE fts_tokens_None)
  then show ?thesis
    by (auto simp: mark_as_done_write Ticket_get_def ticket_of_def set_done_def)
qed

theorem mark_as_done_completes_witness:
  "store_ok utc_localtime_ok doing_store \<and>
   rowid doing_ticket \<in> c_rowid ` set (ticket_table doing_store) \<and>
   utc_localtime_ok (adapt_datetime_epoch (Datetime 1700000120500000)) \<and>
   (\<exists>s' t. mark_as_done utc_localtime_ok doing_ticket doing_store ''fixed in v2'' ''bob''
              (Datetime 1700000120500000) = (s', Inr (Some t)) \<and>
      status t = DONE \<and> assigned_to t = None \<and> ticket_notes t = ''fixed in v2'' \<and>
      Ticket_get utc_localtime_ok s' (rowid doing_ticket) = Inr (Some t))"
proof -
  have inv: "store_ok utc_localtime_ok doing_store"
    by (rule store_ok_doing)
  have row: "rowid doing_ticket \<in> c_rowid ` set (ticket_table doing_store)"
    by (simp add: doing_ticket_def login_ticket_def doing_store_def doing_row_def login_row_def)
  have time: "utc_localtime_ok (adapt_datetime_epoch (Datetime 1700000120500000))"
    by (simp add: adapt_examples utc_localtime_ok_def)
  show ?thesis
    using inv row time
      mark_as_done_completes [OF inv row time, of "''fixed in v2''" "''bob''"]
    by (intro conjI)
qed

section \<open>Creation, then fetching\<close>

text \<open>
  Claim C2. When the seconds that the adapter stores for the current time are seconds
  that \<^verbatim>\<open>fromtimestamp\<close> converts, \<^verbatim>\<open>Ticket.new\<close> returns a ticket, \<^verbatim>\<open>Ticket.get\<close> of its
  rowid reads the identical ticket, its fields are the supplied values, status TODO, no
  notes, no \<^verbatim>\<open>updated_by\<close> and no \<^verbatim>\<open>updated_at\<close>, and its \<^verbatim>\<open>created_at\<close> is the stored
  second, less than one second away from the time supplied: earlier, or later where the
  float of \<^verbatim>\<open>timestamp()\<close> rounds up. For any other time \<^verbatim>\<open>Ticket.new\<close> raises
  \<open>ValueError\<close> and the store stays as it was.
\<close>

theorem new_then_get:
  "(ok (adapt_datetime_epoch now) \<longrightarrow>
      (\<exists>s' t. Ticket_new ok s nm descr proj asg creator now = (s', Inr (Some t)) \<and>
         Ticket_get ok s' (rowid t) = Inr (Some t) \<and>
         name t = nm \<and> description t = descr \<and> project t = proj \<and> status t = TODO \<and>
         assigned_to t = asg \<and> ticket_notes t = [] \<and> created_by t = creator \<and>
         updated_by t = None \<and> updated_at t = PyNone \<and>
         created_at t = Datetime (adapt_datetime_epoch now * 1000000) \<and>
         \<bar>micros (created_at t) - micros now\<bar> < 1000000)) \<and>
   (\<not> ok (adapt_datetime_epoch now) \<longrightarrow>
      Ticket_new ok s nm descr proj asg creator now = (s, Inl ValueError))"
proof (intro conjI impI)
  assume ok: "ok (adapt_datetime_epoch now)"
  let ?row = "\<lparr> c_rowid = next_rowid (ticket_table s), c_name = nm, c_description = descr,
                  c_project = proj, c_status = TODO, c_assigned_to = asg, c_notes = [],
                  c_created_by = creator, c_updated_by = None,
                  c_created_at = adapt_datetime_epoch now, c_updated_at = None \<rparr>"
  have sel: "select_by_rowid (next_rowid (ticket_table s)) (ticket_table s @ [?row]) = [?row]"
    using select_next_rowid [of "ticket_table s"] by (simp add: select_by_rowid_def)
  show "\<exists>s' t. Ticket_new ok s nm descr proj asg creator now = (s', Inr (Some t)) \<and>
         Ticket_get ok s' (rowid t) = Inr (Some t) \<and>
         name t = nm \<and> description t = descr \<and> project t = proj \<and> status t = TODO \<and>
         assigned_to t = asg \<and> ticket_notes t = [] \<and> created_by t = creator \<and>
         updated_by t = None \<and> updated_at t = PyNone \<and>
         created_at t = Datetime (adapt_datetime_epoch now * 1000000) \<and>
         \<bar>micros (created_at t) - micros now\<bar> < 1000000"
    using ok adapt_within_second [of now] sel
    by (simp add: Ticket_new_eq Let_def Ticket_get_def fts_insert_def fetchone_row_factory
        row_ok_def ticket_of_def)
next
  assume "\<not> ok (adapt_datetime_epoch now)"
  then show "Ticket_new ok s nm descr proj asg creator now = (s, Inl ValueError)"
    by (simp add: Ticket_new_eq Let_def)
qed

theorem new_then_get_witness:
  "utc_localtime_ok (adapt_datetime_epoch (Datetime 32503680000999999)) \<and>
   (\<exists>s' t. Ticket_new utc_localtime_ok login_store ''Triage inbox'' [] ''default'' None ''bob''
              (Datetime 32503680000999999) = (s', Inr (Some t)) \<and>
      Ticket_get utc_localtime_ok s' (rowid t) = Inr (Some t) \<and>
      name t = ''Triage inbox'' \<and> assigned_to t = None \<and> updated_by t = None \<and>
      updated_at t = PyNone \<and> created_at t = Datetime 32503680001000000) \<and>
   \<not> utc_localtime_ok (adapt_datetime_epoch (Datetime 253402300799999999)) \<and>
   Ticket_new utc_localtime_ok login_store ''Triage inbox'' [] ''default'' None ''bob''
     (Datetime 253402300799999999) = (login_store, Inl ValueError)"
proof -
  have early: "utc_localtime_ok (adapt_datetime_epoch (Datetime 32503680000999999))"
    and late: "\<not> utc_localtime_ok (adapt_datetime_epoch (Datetime 253402300799999999))"
    by (simp_all add: adapt_examples utc_localtime_ok_def)
  from new_then_get [of utc_localtime_ok "Datetime 32503680000999999" login_store
      "''Triage inbox''" "[]" "''default''" None "''bob''"] early
  have "\<exists>s' t. Ticket_new utc_localtime_ok login_store ''Triage inbox'' [] ''default'' None
            ''bob'' (Datetime 32503680000999999) = (s', Inr (Some t)) \<and>
      Ticket_get utc_localtime_ok s' (rowid t) = Inr (Some t) \<and>
      name t = ''Triage inbox'' \<and> assigned_to t = None \<and> updated_by t = None \<and>
      updated_at t = PyNone \<and> created_at t = Datetime 32503680001000000"
    by (auto simp: adapt_examples)
  moreover from new_then_get [of utc_localtime_ok "Datetime 253402300799999999" login_store
      "''Triage inbox''" "[]" "''default''" None "''bob''"] late
  have "Ticket_new utc_localtime_ok login_store ''Triage inbox'' [] ''default'' None ''bob''
      (Datetime 253402300799999999) = (login_store, Inl ValueError)"
    by blast
  ultimately show ?thesis
    using early late by (intro conjI)
qed

text \<open>
  On a platform in UTC, at the last microsecond of the year 9999, the float rounds up
  to a second of the year 10000: \<^verbatim>\<open>Ticket.new\<close> raises and nothing is created.
\<close>

theorem new_at_end_of_range:
  "Ticket_new utc_localtime_ok empty_store ''Fix login bug'' [] ''web'' (Some ''alice'') ''alice''
     (Datetime 253402300799999999) = (empty_store, Inl ValueError)"
  by (simp add: Ticket_new_eq Let_def adapt_examples utc_localtime_ok_def)

section \<open>A missing row\<close>

text \<open>
  Claim C4. For a rowid that no row has, \<^verbatim>\<open>Ticket.get\<close> returns \<^verbatim>\<open>None\<close> and raises
  nothing: there is no NotFound error. The three handlers that call a method on the
  result end in \<open>AttributeError\<close>, with the store unchanged.
\<close>

theorem get_of_missing_rowid:
  assumes "rid \<notin> c_rowid ` set (ticket_table s)"
  shows "Ticket_get ok s rid = Inr None \<and>
         mark_as_done_handler match ok isoformat fmt rid nts s user now =
           (s, Inl AttributeError) \<and>
         assign_todo_handler match ok isoformat fmt rid a s user now =
           (s, Inl AttributeError) \<and>
         assign_doing_handler match ok isoformat fmt rid a s user now =
           (s, Inl AttributeError)"
proof -
  have "Ticket_get ok s rid = Inr None"
    using assms select_by_rowid_empty_iff [of rid "ticket_table s"]
    by (simp add: Ticket_get_def fetchone_def)
  then show ?thesis
    by (simp add: mark_as_done_handler_def assign_todo_handler_def assign_doing_handler_def)
qed

theorem get_of_missing_rowid_witness:
  "(7::int) \<notin> c_rowid ` set (ticket_table login_store) \<and>
   Ticket_get utc_localtime_ok login_store 7 = Inr None \<and>
   mark_as_done_handler no_hits utc_localtime_ok epoch_text ''json'' 7 ''fixed in v2'' login_store
     ''bob'' (Datetime 1700000120500000) = (login_store, Inl AttributeError)"
  using get_of_missing_rowid [of 7 login_store utc_localtime_ok no_hits epoch_text "''json''"
      "''fixed in v2''" "''bob''" "Datetime 1700000120500000"]
  by (simp add: login_store_def login_row_def)

section \<open>Rejected by the index\<close>

text \<open>
  Claim C9. The completed ticket of the scenario, in the store the three writers built,
  goes back to TODO with the one-word assignee \<^verbatim>\<open>carol\<close>: its status is not looked at.
  With the assignee \<^verbatim>\<open>carol jones\<close> the same update is not applied: the trigger
  \<^verbatim>\<open>update_ticket\<close> takes the two tokens of the new value from an index that has counted
  one, the statement raises \<open>DatabaseError\<close>, and the store stays as it was, for the
  method and for the \<^verbatim>\<open>todo\<close> handler.
\<close>

theorem assign_to_rejected_by_index:
  "reachable utc_localtime_ok done_store \<and>
   Ticket_get utc_localtime_ok done_store 1 = Inr (Some done_ticket) \<and>
   status done_ticket = DONE \<and>
   snd (assign_to utc_localtime_ok done_ticket done_store TODO (Some ''carol'') ''carol''
          (Datetime 1700000300000000)) =
     Inr (Some (done_ticket\<lparr> status := ''TODO'', assigned_to := Some ''carol'',
                              updated_by := Some ''carol'',
                              updated_at := PyDatetime (Datetime 1700000300000000) \<rparr>)) \<and>
   assign_to utc_localtime_ok done_ticket done_store TODO (Some ''carol jones'') ''carol''
     (Datetime 1700000300000000) = (done_store, Inl DatabaseError) \<and>
   assign_todo_handler no_hits utc_localtime_ok epoch_text ''json'' 1 (Some ''carol jones'')
     done_store ''carol'' (Datetime 1700000300000000) = (done_store, Inl DatabaseError)"
proof -
  have get: "Ticket_get utc_localtime_ok done_store 1 = Inr (Some done_ticket)"
    by (simp add: Ticket_get_def done_store_def select_by_rowid_def done_row_def login_row_def
        fetchone_row_factory row_ok_def utc_localtime_ok_def ticket_of_def done_ticket_def
        login_ticket_def)
  have rejected: "assign_to utc_localtime_ok done_ticket done_store TODO (Some ''carol jones'')
      ''carol'' (Datetime 1700000300000000) = (done_store, Inl DatabaseError)"
    by (simp add: assign_to_write write_row_eq done_ticket_def login_ticket_def done_store_def
        select_by_rowid_def done_row_def login_row_def fts_rejects_def fts_columns_def
        fts_value_def set_assignment_def login_sizes_values example_tokens)
  have accepted: "snd (assign_to utc_localtime_ok done_ticket done_store TODO (Some ''carol'')
      ''carol'' (Datetime 1700000300000000)) =
     Inr (Some (done_ticket\<lparr> status := ''TODO'', assigned_to := Some ''carol'',
                              updated_by := Some ''carol'',
                              updated_at := PyDatetime (Datetime 1700000300000000) \<rparr>))"
    by (simp add: assign_to_write write_row_eq done_ticket_def login_ticket_def done_store_def
        select_by_rowid_def done_row_def login_row_def fts_rejects_def fts_columns_def
        fts_value_def set_assignment_def login_sizes_values example_tokens adapt_examples
        fetchone_row_factory row_ok_def utc_localtime_ok_def ticket_of_def TODO_def)
  have completed: "status done_ticket = DONE"
    by (simp add: done_ticket_def login_ticket_def DONE_def)
  have handler: "assign_todo_handler no_hits utc_localtime_ok epoch_text ''json'' 1
      (Some ''carol jones'') done_store ''carol'' (Datetime 1700000300000000) =
      (done_store, Inl DatabaseError)"
    using get rejected by (simp add: assign_todo_handler_def truthy_def)
  show ?thesis
    using reachable_done get completed accepted rejected handler
    by (intro conjI)
qed

section \<open>Filter correctness\<close>

lemma store_ok_two: "store_ok utc_localtime_ok two_store"
  by (simp add: store_ok_def two_store_def doing_row_def login_row_def blank_row_def
      login_sizes_values example_tokens fts_value_def utc_localtime_ok_def)

lemma two_store_tickets:
  "fetchall (row_factory utc_localtime_ok) (ticket_table two_store) =
     Inr [doing_ticket, blank_ticket]"
  by (simp add: two_store_def row_factory_eq row_ok_def doing_row_def login_row_def blank_row_def
      utc_localtime_ok_def ticket_of_def doing_ticket_def login_ticket_def blank_ticket_def)

text \<open>
  Claim C3. With no search text, for every choice of the filters status, assignee and
  creator, the listing fetches exactly the tickets of the rows that satisfy the equality
  of every filter supplied (neither \<^verbatim>\<open>None\<close> nor empty), in the order of the table; with
  no filter it fetches the ticket of every row; and where the full listing is the list
  \<open>all\<close>, the filtered one is the tickets of \<open>all\<close> that satisfy the equalities. The
  rows are those selected by the statement text \<^verbatim>\<open>_list_tickets\<close> builds, parsed and
  run with the parameters it binds.
\<close>

theorem listing_filters_exactly:
  "list_tickets_fetch match ok s st None asg creator =
     fetchall (row_factory ok)
       (filter (\<lambda>r. (truthy st \<longrightarrow> Some (c_status r) = st) \<and>
                     (truthy asg \<longrightarrow> c_assigned_to r = asg) \<and>
                     (truthy creator \<longrightarrow> Some (c_created_by r) = creator))
          (ticket_table s)) \<and>
   list_tickets_fetch match ok s None None None None = fetchall (row_factory ok) (ticket_table s) \<and>
   (\<forall>all. list_tickets_fetch match ok s None None None None = Inr all \<longrightarrow>
      list_tickets_fetch match ok s st None asg creator =
        Inr (filter (\<lambda>t. (truthy st \<longrightarrow> Some (status t) = st) \<and>
                         (truthy asg \<longrightarrow> assigned_to t = asg) \<and>
                         (truthy creator \<longrightarrow> Some (created_by t) = creator)) all))"
proof -
  have none: "\<not> truthy None" by (simp add: truthy_def)
  have filtered: "list_tickets_fetch match ok s st None asg creator =
     fetchall (row_factory ok)
       (filter (\<lambda>r. (truthy st \<longrightarrow> Some (c_status r) = st) \<and>
                     (truthy asg \<longrightarrow> c_assigned_to r = asg) \<and>
                     (truthy creator \<longrightarrow> Some (c_created_by r) = creator))
          (ticket_table s))"
    by (rule fetch_no_search [OF none])
  have full: "list_tickets_fetch match ok s None None None None =
      fetchall (row_factory ok) (ticket_table s)"
    by (simp add: fetch_no_search [OF none] none)
  have "list_tickets_fetch match ok s st None asg creator =
        Inr (filter (\<lambda>t. (truthy st \<longrightarrow> Some (status t) = st) \<and>
                         (truthy asg \<longrightarrow> assigned_to t = asg) \<and>
                         (truthy creator \<longrightarrow> Some (created_by t) = creator)) all)"
    if "list_tickets_fetch match ok s None None None None = Inr all" for all
    unfolding filtered
  proof (rule fetchall_filter)
    show "fetchall (row_factory ok) (ticket_table s) = Inr all"
      using that by (simp only: full)
  next
    fix r t
    assume "row_factory ok r = Inr t"
    then have "t = ticket_of r"
      by (simp add: row_factory_eq split: if_splits)
    then show "((truthy st \<longrightarrow> Some (c_status r) = st) \<and>
                (truthy asg \<longrightarrow> c_assigned_to r = asg) \<and>
                (truthy creator \<longrightarrow> Some (c_created_by r) = creator)) \<longleftrightarrow>
               ((truthy st \<longrightarrow> Some (status t) = st) \<and>
                (truthy asg \<longrightarrow> assigned_to t = asg) \<and>
                (truthy creator \<longrightarrow> Some (created_by t) = creator))"
      by (simp add: ticket_of_def)
  qed
  with filtered full show ?thesis by blast
qed

theorem listing_filters_exactly_witness:
  "list_tickets_fetch no_hits utc_localtime_ok two_store None None None None =
     Inr [doing_ticket, blank_ticket] \<and>
   list_tickets_fetch no_hits utc_localtime_ok two_store (Some ''DOING'') None (Some ''bob'') None =
     Inr [doing_ticket] \<and>
   list_tickets_fetch no_hits utc_localtime_ok two_store (Some ''TODO'') None None None =
     Inr [blank_ticket] \<and>
   list_tickets_fetch no_hits utc_localtime_ok two_store (Some ''DONE'') None None None = Inr []"
proof -
  have "list_tickets_fetch no_hits utc_localtime_ok two_store None None None None =
      fetchall (row_factory utc_localtime_ok) (ticket_table two_store)"
    using listing_filters_exactly [of no_hits utc_localtime_ok two_store None None None]
    by blast
  then have full: "list_tickets_fetch no_hits utc_localtime_ok two_store None None None None =
      Inr [doing_ticket, blank_ticket]"
    by (simp only: two_store_tickets)
  have "list_tickets_fetch no_hits utc_localtime_ok two_store st None asg creator =
        Inr (filter (\<lambda>t. (truthy st \<longrightarrow> Some (status t) = st) \<and>
                         (truthy asg \<longrightarrow> assigned_to t = asg) \<and>
                         (truthy creator \<longrightarrow> Some (created_by t) = creator))
               [doing_ticket, blank_ticket])" for st asg creator
    using listing_filters_exactly [of no_hits utc_localtime_ok two_store st asg creator] full
    by blast
  then show ?thesis
    using full
    by (simp add: truthy_def doing_ticket_def login_ticket_def blank_ticket_def)
qed

section \<open>The JSON form of a ticket\<close>

text \<open>
  Claim C5. The ticket that \<^verbatim>\<open>Ticket.new\<close> returns has no \<^verbatim>\<open>updated_by\<close>, and \<^verbatim>\<open>asdict\<close>
  keeps that \<^verbatim>\<open>None\<close> in the dict the JSON listing prints, where \<^verbatim>\<open>updated_at\<close> does
  become the empty string.
\<close>

theorem asdict_of_new_ticket:
  "\<exists>s t. Ticket_new utc_localtime_ok empty_store ''Fix login bug'' [] ''web'' (Some ''alice'')
             ''alice'' (Datetime 1700000000123456) = (s, Inr (Some t)) \<and>
      map_of (asdict isoformat t) ''updated_by'' = Some None \<and>
      map_of (asdict isoformat t) ''updated_at'' = Some (Some []) \<and>
      list_tickets match utc_localtime_ok isoformat s None None None None ''json'' =
        Inr (Json [asdict isoformat t])"
proof -
  have none: "\<not> truthy None" by (simp add: truthy_def)
  have "list_tickets match utc_localtime_ok isoformat login_store None None None None ''json'' =
      Inr (Json [asdict isoformat login_ticket])"
    by (simp add: list_tickets_def fetch_no_search [OF none] none login_store_def row_factory_eq
        row_ok_def login_row_def utc_localtime_ok_def ticket_of_def login_ticket_def)
  moreover have "map_of (asdict isoformat login_ticket) ''updated_by'' = Some None"
    "map_of (asdict isoformat login_ticket) ''updated_at'' = Some (Some [])"
    by (simp_all add: asdict_def login_ticket_def)
  ultimately show ?thesis
    using login_store_built by blast
qed

section \<open>The statement text and the filter values\<close>

text \<open>
  Claim C6. When two quadruples of filter values are present (neither \<^verbatim>\<open>None\<close> nor
  empty) in the same places, the statement texts built for them are the same; and the
  parameters bound are exactly each present value under its own name.
\<close>

theorem query_text_ignores_values:
  assumes "truthy st = truthy st'" and "truthy search = truthy search'"
    and "truthy asg = truthy asg'" and "truthy creator = truthy creator'"
  shows "fst (list_tickets_query st search asg creator) =
           fst (list_tickets_query st' search' asg' creator') \<and>
         (\<forall>k. snd (list_tickets_query st search asg creator) k =
           (if k = ''created_by'' \<and> truthy creator then creator
            else if k = ''assigned_to'' \<and> truthy asg then asg
            else if k = ''status'' \<and> truthy st then st
            else if k = ''search'' \<and> truthy search then search
            else None))"
  using assms by (simp add: query_sql query_params)

theorem query_text_ignores_values_witness:
  "truthy (Some ''TODO'') = truthy (Some ''DONE; DROP TABLE ticket'') \<and>
   truthy (Some ''login'') = truthy (Some ''x OR y'') \<and>
   truthy None = truthy (Some []) \<and>
   truthy (Some ''alice'') = truthy (Some ''bob'') \<and>
   fst (list_tickets_query (Some ''TODO'') (Some ''login'') None (Some ''alice'')) =
     fst (list_tickets_query (Some ''DONE; DROP TABLE ticket'') (Some ''x OR y'') (Some [])
            (Some ''bob'')) \<and>
   snd (list_tickets_query (Some ''TODO'') (Some ''login'') None (Some ''alice'')) ''status'' =
     Some ''TODO''"
  using query_text_ignores_values [of "Some ''TODO''" "Some ''DONE; DROP TABLE ticket''"
      "Some ''login''" "Some ''x OR y''" None "Some []" "Some ''alice''" "Some ''bob''"]
  by (simp add: truthy_def)

section \<open>Empty filter values\<close>

text \<open>
  Claim C10. An empty string as status, search text, assignee or creator builds the
  same statement text and parameters as \<^verbatim>\<open>None\<close>, hence the same listing; and with only
  empty or absent values the listing fetches the ticket of every row, so an empty
  filter selects no row by equality with the empty string.
\<close>

theorem empty_filter_is_absent:
  "list_tickets_query (Some []) search asg creator = list_tickets_query None search asg creator \<and>
   list_tickets_query st (Some []) asg creator = list_tickets_query st None asg creator \<and>
   list_tickets_query st search (Some []) creator = list_tickets_query st search None creator \<and>
   list_tickets_query st search asg (Some []) = list_tickets_query st search asg None \<and>
   list_tickets_fetch match ok s (Some []) search asg creator =
     list_tickets_fetch match ok s None search asg creator \<and>
   list_tickets_fetch match ok s st (Some []) asg creator =
     list_tickets_fetch match ok s st None asg creator \<and>
   list_tickets_fetch match ok s st search (Some []) creator =
     list_tickets_fetch match ok s st search None creator \<and>
   list_tickets_fetch match ok s st search asg (Some []) =
     list_tickets_fetch match ok s st search asg None \<and>
   list_tickets_fetch match ok s None None (Some []) None =
     fetchall (row_factory ok) (ticket_table s) \<and>
   list_tickets_fetch match ok s None None None (Some []) =
     fetchall (row_factory ok) (ticket_table s) \<and>
   list_tickets_fetch match ok s None (Some []) None None =
     fetchall (row_factory ok) (ticket_table s) \<and>
   list_tickets_fetch match ok s (Some []) (Some []) (Some []) (Some []) =
     fetchall (row_factory ok) (ticket_table s)"
proof -
  have e: "\<not> truthy (Some [])" and n: "\<not> truthy None"
    by (simp_all add: truthy_def)
  have q: "list_tickets_query (Some []) search asg creator = list_tickets_query None search asg creator"
    "list_tickets_query st (Some []) asg creator = list_tickets_query st None asg creator"
    "list_tickets_query st search (Some []) creator = list_tickets_query st search None creator"
    "list_tickets_query st search asg (Some []) = list_tickets_query st search asg None"
    for st search asg creator
    by (simp_all add: list_tickets_query_def e n)
  have f: "list_tickets_fetch match ok s None None (Some []) None =
             fetchall (row_factory ok) (ticket_table s)"
    "list_tickets_fetch match ok s None None None (Some []) =
       fetchall (row_factory ok) (ticket_table s)"
    "list_tickets_fetch match ok s None (Some []) None None =
       fetchall (row_factory ok) (ticket_table s)"
    "list_tickets_fetch match ok s (Some []) (Some []) (Some []) (Some []) =
       fetchall (row_factory ok) (ticket_table s)"
    by (simp_all add: fetch_no_search e n)
  have g: "list_tickets_fetch match ok s (Some []) search asg creator =
             list_tickets_fetch match ok s None search asg creator"
    "list_tickets_fetch match ok s st (Some []) asg creator =
       list_tickets_fetch match ok s st None asg creator"
    "list_tickets_fetch match ok s st search (Some []) creator =
       list_tickets_fetch match ok s st search None creator"
    "list_tickets_fetch match ok s st search asg (Some []) =
       list_tickets_fetch match ok s st search asg None"
    by (simp_all add: list_tickets_fetch_def q)
  show ?thesis
    by (intro conjI q g f)
qed

theorem empty_filter_is_absent_witness:
  "list_tickets_fetch no_hits utc_localtime_ok two_store None None (Some []) None =
     Inr [doing_ticket, blank_ticket]"
proof -
  have "list_tickets_fetch no_hits utc_localtime_ok two_store None None (Some []) None =
          fetchall (row_factory utc_localtime_ok) (ticket_table two_store)"
    using empty_filter_is_absent [where match = no_hits and ok = utc_localtime_ok and s = two_store]
    by blast
  then show ?thesis
    by (simp add: two_store_tickets)
qed

section \<open>The listing after a write\<close>

lemma list_tickets_unfiltered:
  assumes "store_ok ok s"
  shows "\<exists>out. list_tickets match ok isoformat s (Some []) (Some []) (Some []) (Some []) fmt =
           Inr out"
proof -
  have e: "\<not> truthy (Some [])"
    by (simp add: truthy_def)
  have "list_tickets_fetch match ok s (Some []) (Some []) (Some []) (Some []) =
      Inr (map ticket_of (ticket_table s))"
    by (simp add: fetch_no_search [OF e] e fetchall_row_factory [OF store_ok_rows [OF assms]])
  then show ?thesis
    by (simp add: list_tickets_def)
qed

lemma assign_to_succeeds:
  assumes inv: "store_ok ok s" and hit: "rid \<in> c_rowid ` set (ticket_table s)"
    and time: "ok (adapt_datetime_epoch now)"
    and st: "fts_tokens (Some st) = 1"
    and asg: "fts_tokens asg \<le> fts_size s F_assigned_to"
  shows "\<exists>t0 s' t. Ticket_get ok s rid = Inr (Some t0) \<and>
           assign_to ok t0 s st asg updater now = (s', Inr (Some t)) \<and>
           store_ok ok s' \<and> Ticket_get ok s' rid = Inr (Some t) \<and>
           status t = st \<and> assigned_to t = asg"
proof -
  let ?f = "set_assignment st asg updater now"
  let ?s' = "s\<lparr> ticket_table := map (\<lambda>r. if c_rowid r = rid then ?f r else r) (ticket_table s) \<rparr>"
  from hit obtain r0 where "r0 \<in> set (ticket_table s)" by auto
  with inv have size: "1 \<le> fts_size s F_status"
    by (auto simp: store_ok_def)
  have "\<exists>r. r \<in> set (ticket_table s) \<and> c_rowid r = rid \<and>
          fetchone (row_factory ok) (select_by_rowid rid (ticket_table s)) =
            Inr (Some (ticket_of r)) \<and>
          write_row ok ?f rid s = (?s', Inr (Some (ticket_of (?f r)))) \<and>
          fetchone (row_factory ok)
            (select_by_rowid rid (map (\<lambda>r. if c_rowid r = rid then ?f r else r) (ticket_table s))) =
            Inr (Some (ticket_of (?f r)))"
    using inv hit time size st asg
    by (intro write_row_succeeds [OF _ keeps_frame_set_assignment,
          where u = "adapt_datetime_epoch now"])
      (simp_all add: set_assignment_def)
  then obtain r where r: "c_rowid r = rid"
    and before: "Ticket_get ok s rid = Inr (Some (ticket_of r))"
    and written: "write_row ok ?f rid s = (?s', Inr (Some (ticket_of (?f r))))"
    and after: "Ticket_get ok ?s' rid = Inr (Some (ticket_of (?f r)))"
    by (auto simp: Ticket_get_def)
  have self: "rowid (ticket_of r) = rid"
    using r by (simp add: ticket_of_def)
  have call: "assign_to ok (ticket_of r) s st asg updater now = (?s', Inr (Some (ticket_of (?f r))))"
    using written by (simp add: assign_to_write self)
  have "store_ok ok (fst (assign_to ok (ticket_of r) s st asg updater now))"
    by (rule store_ok_assign_to [OF inv])
  then have inv': "store_ok ok ?s'"
    by (simp add: call)
  have fields: "status (ticket_of (?f r)) = st" "assigned_to (ticket_of (?f r)) = asg"
    by (simp_all add: ticket_of_def set_assignment_def)
  show ?thesis
    using before call inv' after fields by blast
qed

section \<open>The assignee of a transition\<close>

text \<open>
  Claim C7. In a store of the program, for a rowid of the table and a current time
  whose seconds the platform converts back, and where the index has counted as many
  assignee tokens as the new assignee has: \<^verbatim>\<open>todo\<close> succeeds and the ticket read back has
  status TODO and the assignee given, or none when \<^verbatim>\<open>--assign_to\<close> is omitted or empty;
  \<^verbatim>\<open>doing\<close> succeeds and the ticket read back has status DOING and the assignee given,
  or the user when \<^verbatim>\<open>--assign_to\<close> is omitted or empty. Nothing is stated of an
  assignee with more tokens than the index has counted.
\<close>

theorem todo_and_doing_assignee:
  assumes "store_ok ok s" and "rid \<in> c_rowid ` set (ticket_table s)"
    and "ok (adapt_datetime_epoch now)"
  shows "(fts_tokens (if truthy a then a else None) \<le> fts_size s F_assigned_to \<longrightarrow>
            (\<exists>s' out t. assign_todo_handler match ok isoformat fmt rid a s user now =
                           (s', Inr out) \<and>
               Ticket_get ok s' rid = Inr (Some t) \<and> status t = TODO \<and>
               assigned_to t = (if truthy a then a else None))) \<and>
         (fts_tokens (if truthy a then a else Some user) \<le> fts_size s F_assigned_to \<longrightarrow>
            (\<exists>s' out t. assign_doing_handler match ok isoformat fmt rid a s user now =
                           (s', Inr out) \<and>
               Ticket_get ok s' rid = Inr (Some t) \<and> status t = DOING \<and>
               assigned_to t = (if truthy a then a else Some user)))"
proof (intro conjI impI)
  let ?a = "if truthy a then a else None"
  assume "fts_tokens ?a \<le> fts_size s F_assigned_to"
  then obtain t0 s' t where get: "Ticket_get ok s rid = Inr (Some t0)"
    and call: "assign_to ok t0 s TODO ?a user now = (s', Inr (Some t))"
    and inv': "store_ok ok s'"
    and stored: "Ticket_get ok s' rid = Inr (Some t)" "status t = TODO" "assigned_to t = ?a"
    using assign_to_succeeds [OF assms fts_tokens_TODO, of ?a user] by blast
  obtain out where
    "list_tickets match ok isoformat s' (Some []) (Some []) (Some []) (Some []) fmt = Inr out"
    using list_tickets_unfiltered [OF inv'] by blast
  then have "assign_todo_handler match ok isoformat fmt rid a s user now = (s', Inr out)"
    using get call by (simp add: assign_todo_handler_def)
  with stored show "\<exists>s' out t. assign_todo_handler match ok isoformat fmt rid a s user now =
                           (s', Inr out) \<and>
               Ticket_get ok s' rid = Inr (Some t) \<and> status t = TODO \<and> assigned_to t = ?a"
    by blast
next
  let ?a = "if truthy a then a else Some user"
  assume "fts_tokens ?a \<le> fts_size s F_assigned_to"
  then obtain t0 s' t where get: "Ticket_get ok s rid = Inr (Some t0)"
    and call: "assign_to ok t0 s DOING ?a user now = (s', Inr (Some t))"
    and inv': "store_ok ok s'"
    and stored: "Ticket_get ok s' rid = Inr (Some t)" "status t = DOING" "assigned_to t = ?a"
    using assign_to_succeeds [OF assms fts_tokens_DOING, of ?a user] by blast
  obtain out where
    "list_tickets match ok isoformat s' (Some []) (Some []) (Some []) (Some []) fmt = Inr out"
    using list_tickets_unfiltered [OF inv'] by blast
  then have "assign_doing_handler match ok isoformat fmt rid a s user now = (s', Inr out)"
    using get call by (simp add: assign_doing_handler_def)
  with stored show "\<exists>s' out t. assign_doing_handler match ok isoformat fmt rid a s user now =
                           (s', Inr out) \<and>
               Ticket_get ok s' rid = Inr (Some t) \<and> status t = DOING \<and> assigned_to t = ?a"
    by blast
qed

theorem todo_and_doing_assignee_witness:
  "store_ok utc_localtime_ok login_store \<and>
   (1::int) \<in> c_rowid ` set (ticket_table login_store) \<and>
   utc_localtime_ok (adapt_datetime_epoch (Datetime 1700000300000000)) \<and>
   fts_tokens (Some ''bob'') \<le> fts_size login_store F_assigned_to \<and>
   (\<exists>s' out t. assign_todo_handler no_hits utc_localtime_ok epoch_text ''json'' 1 (Some ''bob'')
                  login_store ''carol'' (Datetime 1700000300000000) = (s', Inr out) \<and>
      Ticket_get utc_localtime_ok s' 1 = Inr (Some t) \<and> status t = TODO \<and>
      assigned_to t = Some ''bob'') \<and>
   (\<exists>s' out t. assign_doing_handler no_hits utc_localtime_ok epoch_text ''json'' 1 (Some ''bob'')
                  login_store ''carol'' (Datetime 1700000300000000) = (s', Inr out) \<and>
      Ticket_get utc_localtime_ok s' 1 = Inr (Some t) \<and> status t = DOING \<and>
      assigned_to t = Some ''bob'')"
proof -
  have inv: "store_ok utc_localtime_ok login_store"
    by (rule store_ok_login)
  have row: "(1::int) \<in> c_rowid ` set (ticket_table login_store)"
    by (simp add: login_store_def login_row_def)
  have time: "utc_localtime_ok (adapt_datetime_epoch (Datetime 1700000300000000))"
    by (simp add: adapt_examples utc_localtime_ok_def)
  have size: "fts_tokens (Some ''bob'') \<le> fts_size login_store F_assigned_to"
    by (simp add: login_store_def login_sizes_values example_tokens)
  have given: "truthy (Some ''bob'')"
    by (simp add: truthy_def)
  have size': "fts_tokens (if truthy (Some ''bob'') then Some ''bob'' else x) \<le>
      fts_size login_store F_assigned_to" for x
    using size given by simp
  have todo: "\<exists>s' out t. assign_todo_handler no_hits utc_localtime_ok epoch_text ''json'' 1
                  (Some ''bob'') login_store ''carol'' (Datetime 1700000300000000) =
                  (s', Inr out) \<and>
      Ticket_get utc_localtime_ok s' 1 = Inr (Some t) \<and> status t = TODO \<and>
      assigned_to t = (if truthy (Some ''bob'') then Some ''bob'' else None)"
    using todo_and_doing_assignee [OF inv row time, where a = "Some ''bob''"
        and user = "''carol''" and match = no_hits and isoformat = epoch_text
        and fmt = "''json''"] size' by blast
  have doing: "\<exists>s' out t. assign_doing_handler no_hits utc_localtime_ok epoch_text ''json'' 1
                  (Some ''bob'') login_store ''carol'' (Datetime 1700000300000000) =
                  (s', Inr out) \<and>
      Ticket_get utc_localtime_ok s' 1 = Inr (Some t) \<and> status t = DOING \<and>
      assigned_to t = (if truthy (Some ''bob'') then Some ''bob'' else Some ''carol'')"
    using todo_and_doing_assignee [OF inv row time, where a = "Some ''bob''"
        and user = "''carol''" and match = no_hits and isoformat = epoch_text
        and fmt = "''json''"] size' by blast
  from todo doing show ?thesis
    unfolding if_P [OF given] using inv row time size by (intro conjI)
qed

text \<open>
  With \<^verbatim>\<open>--assign_to ""\<close> an assignee is given, the empty string, and it is not what the
  row holds afterwards: \<^verbatim>\<open>todo\<close> stores no assignee and \<^verbatim>\<open>doing\<close> stores the user.
\<close>

theorem empty_assignee_not_stored:
  "Ticket_get utc_localtime_ok
     (fst (assign_todo_handler no_hits utc_localtime_ok epoch_text ''json'' 1 (Some [])
             login_store ''carol'' (Datetime 1700000300000000))) 1 =
     Inr (Some (login_ticket\<lparr> status := ''TODO'', assigned_to := None,
                               updated_by := Some ''carol'',
                               updated_at := PyDatetime (Datetime 1700000300000000) \<rparr>)) \<and>
   Ticket_get utc_localtime_ok
     (fst (assign_doing_handler no_hits utc_localtime_ok epoch_text ''json'' 1 (Some [])
             login_store ''carol'' (Datetime 1700000300000000))) 1 =
     Inr (Some (login_ticket\<lparr> status := ''DOING'', assigned_to := Some ''carol'',
                               updated_by := Some ''carol'',
                               updated_at := PyDatetime (Datetime 1700000300000000) \<rparr>))"
proof -
  have e: "\<not> truthy (Some [])"
    by (simp add: truthy_def)
  have todo: "assign_to utc_localtime_ok login_ticket login_store TODO None ''carol''
      (Datetime 1700000300000000) =
      (login_store\<lparr> ticket_table :=
         [login_row\<lparr> c_status := ''TODO'', c_assigned_to := None, c_updated_by := Some ''carol'',
                     c_updated_at := Some 1700000300 \<rparr>] \<rparr>,
       Inr (Some (login_ticket\<lparr> status := ''TODO'', assigned_to := None,
                                 updated_by := Some ''carol'',
                                 updated_at := PyDatetime (Datetime 1700000300000000) \<rparr>)))"
    by (simp add: assign_to_write write_row_eq login_ticket_def login_store_def select_by_rowid_def
        login_row_def fts_rejects_def fts_columns_def fts_value_def set_assignment_def
        login_sizes_values example_tokens fts_tokens_None adapt_examples fetchone_row_factory
        row_ok_def utc_localtime_ok_def ticket_of_def TODO_def)
  have doing: "assign_to utc_localtime_ok login_ticket login_store DOING (Some ''carol'') ''carol''
      (Datetime 1700000300000000) =
      (login_store\<lparr> ticket_table :=
         [login_row\<lparr> c_status := ''DOING'', c_assigned_to := Some ''carol'',
                     c_updated_by := Some ''carol'', c_updated_at := Some 1700000300 \<rparr>] \<rparr>,
       Inr (Some (login_ticket\<lparr> status := ''DOING'', assigned_to := Some ''carol'',
                                 updated_by := Some ''carol'',
                                 updated_at := PyDatetime (Datetime 1700000300000000) \<rparr>)))"
    by (simp add: assign_to_write write_row_eq login_ticket_def login_store_def select_by_rowid_def
        login_row_def fts_rejects_def fts_columns_def fts_value_def set_assignment_def
        login_sizes_values example_tokens fts_tokens_None adapt_examples fetchone_row_factory
        row_ok_def utc_localtime_ok_def ticket_of_def DOING_def)
  have fst_todo: "fst (assign_todo_handler no_hits utc_localtime_ok epoch_text ''json'' 1 (Some [])
             login_store ''carol'' (Datetime 1700000300000000)) =
      login_store\<lparr> ticket_table :=
         [login_row\<lparr> c_status := ''TODO'', c_assigned_to := None, c_updated_by := Some ''carol'',
                     c_updated_at := Some 1700000300 \<rparr>] \<rparr>"
    by (simp add: assign_todo_handler_def e login_store_get todo)
  have fst_doing: "fst (assign_doing_handler no_hits utc_localtime_ok epoch_text ''json'' 1 (Some [])
             login_store ''carol'' (Datetime 1700000300000000)) =
      login_store\<lparr> ticket_table :=
         [login_row\<lparr> c_status := ''DOING'', c_assigned_to := Some ''carol'',
                     c_updated_by := Some ''carol'', c_updated_at := Some 1700000300 \<rparr>] \<rparr>"
    by (simp add: assign_doing_handler_def e login_store_get doing)
  show ?thesis
    unfolding fst_todo fst_doing
    by (simp add: Ticket_get_def login_store_def select_by_rowid_def login_row_def
        fetchone_row_factory row_ok_def utc_localtime_ok_def ticket_of_def login_ticket_def)
qed

section \<open>What a write keeps\<close>

lemma write_row_table:
  "ticket_table (fst (write_row ok f rid s)) = ticket_table s \<or>
   ticket_table (fst (write_row ok f rid s)) =
     map (\<lambda>r. if c_rowid r = rid then f r else r) (ticket_table s)"
  using write_row_store [of ok f rid s] by auto

lemma write_row_columns:
  assumes "\<And>r. g (f r) = g r"
  shows "map g (ticket_table (fst (write_row ok f rid s))) = map g (ticket_table s)"
  using write_row_table [of ok f rid s] assms by auto

lemma filter_others:
  assumes "\<And>r. c_rowid (f r) = c_rowid r"
  shows "filter (\<lambda>r. c_rowid r \<noteq> rid) (map (\<lambda>r. if c_rowid r = rid then f r else r) rows) =
         filter (\<lambda>r. c_rowid r \<noteq> rid) rows"
  using assms by (induction rows) simp_all

lemma write_row_others:
  assumes "\<And>r. c_rowid (f r) = c_rowid r"
  shows "filter (\<lambda>r. c_rowid r \<noteq> rid) (ticket_table (fst (write_row ok f rid s))) =
         filter (\<lambda>r. c_rowid r \<noteq> rid) (ticket_table s)"
  using write_row_table [of ok f rid s] filter_others [OF assms] by auto

lemma Ticket_get_store_ok:
  assumes "store_ok ok s"
  shows "Ticket_get ok s rid =
           Inr (case select_by_rowid rid (ticket_table s) of [] \<Rightarrow> None | r # _ \<Rightarrow> Some (ticket_of r))"
proof (cases "select_by_rowid rid (ticket_table s)")
  case Nil
  then show ?thesis
    by (simp add: Ticket_get_def fetchone_row_factory)
next
  case (Cons r rs)
  then have "r \<in> set (ticket_table s)"
    using select_by_rowid_set [of r rid "ticket_table s"] by simp
  then have "row_ok ok r"
    using assms by (simp add: store_ok_row_ok)
  then show ?thesis
    using Cons by (simp add: Ticket_get_def fetchone_row_factory)
qed

lemma write_row_get:
  assumes inv: "store_ok ok s" and frame: "keeps_frame f"
    and stamp: "\<And>r. c_updated_at (f r) = Some u"
    and g: "\<And>r. g (ticket_of (f r)) = g (ticket_of r)"
  shows "\<exists>before after. Ticket_get ok s rid' = Inr before \<and>
           Ticket_get ok (fst (write_row ok f rid s)) rid' = Inr after \<and>
           map_option g after = map_option g before"
proof -
  have keep: "\<And>r. c_rowid (f r) = c_rowid r"
    using frame by (simp add: keeps_frame_def)
  have inv': "store_ok ok (fst (write_row ok f rid s))"
    by (rule store_ok_write_row [OF inv frame stamp])
  have "map_option g
          (case select_by_rowid rid' (ticket_table (fst (write_row ok f rid s))) of
             [] \<Rightarrow> None | r # _ \<Rightarrow> Some (ticket_of r)) =
        map_option g
          (case select_by_rowid rid' (ticket_table s) of [] \<Rightarrow> None | r # _ \<Rightarrow> Some (ticket_of r))"
    using write_row_table [of ok f rid s]
    by (cases "select_by_rowid rid' (ticket_table s)")
      (auto simp: select_by_rowid_update [OF keep] g)
  then show ?thesis
    by (simp add: Ticket_get_store_ok [OF inv] Ticket_get_store_ok [OF inv'])
qed

lemma write_row_returned:
  assumes inv: "store_ok ok s"
    and g: "\<And>r. g (ticket_of (f r)) = g (ticket_of r)"
    and res: "snd (write_row ok f rid s) = Inr res"
  shows "\<exists>before. Ticket_get ok s rid = Inr before \<and> map_option g res = map_option g before"
proof (cases "select_by_rowid rid (ticket_table s)")
  case Nil
  then show ?thesis
    using res by (simp add: write_row_eq Ticket_get_def fetchone_row_factory)
next
  case (Cons r rs)
  then show ?thesis
    using res g [of r]
    by (auto simp: write_row_eq Ticket_get_store_ok [OF inv] fetchone_row_factory
        split: if_splits)
qed

lemma Ticket_new_table:
  "take (length (ticket_table s)) (ticket_table (fst (Ticket_new ok s nm descr proj asg creator now))) =
     ticket_table s"
  by (simp add: Ticket_new_eq Let_def fts_insert_def)

section \<open>What the transitions leave alone\<close>

text \<open>
  Claim C8. \<^verbatim>\<open>assign_to\<close> and \<^verbatim>\<open>mark_as_done\<close> change no row's rowid, name, description,
  project, creator or creation time (\<^verbatim>\<open>assign_to\<close> no notes either), and nothing at all
  in the rows of another rowid, whether they succeed or raise. In a store of the
  program, for every rowid, the ticket fetched afterwards agrees in these fields with
  the one fetched before, and so does the ticket the method returns. \<^verbatim>\<open>Ticket.new\<close>, the
  only other writer, leaves the rows it finds as they are.
\<close>

theorem transitions_frame:
  "map (\<lambda>r. (c_rowid r, c_name r, c_description r, c_project r, c_created_by r,
             c_created_at r, c_notes r))
     (ticket_table (fst (assign_to ok self s st asg updater now))) =
   map (\<lambda>r. (c_rowid r, c_name r, c_description r, c_project r, c_created_by r,
             c_created_at r, c_notes r)) (ticket_table s) \<and>
   map (\<lambda>r. (c_rowid r, c_name r, c_description r, c_project r, c_created_by r,
             c_created_at r))
     (ticket_table (fst (mark_as_done ok self s nts updater now))) =
   map (\<lambda>r. (c_rowid r, c_name r, c_description r, c_project r, c_created_by r,
             c_created_at r)) (ticket_table s) \<and>
   filter (\<lambda>r. c_rowid r \<noteq> rowid self)
     (ticket_table (fst (assign_to ok self s st asg updater now))) =
     filter (\<lambda>r. c_rowid r \<noteq> rowid self) (ticket_table s) \<and>
   filter (\<lambda>r. c_rowid r \<noteq> rowid self)
     (ticket_table (fst (mark_as_done ok self s nts updater now))) =
     filter (\<lambda>r. c_rowid r \<noteq> rowid self) (ticket_table s) \<and>
   (store_ok ok s \<longrightarrow>
      (\<forall>rid.
         (\<exists>before after.
            Ticket_get ok s rid = Inr before \<and>
            Ticket_get ok (fst (assign_to ok self s st asg updater now)) rid = Inr after \<and>
            map_option (\<lambda>t. (rowid t, name t, description t, project t, created_by t,
                             created_at t, ticket_notes t)) after =
            map_option (\<lambda>t. (rowid t, name t, description t, project t, created_by t,
                             created_at t, ticket_notes t)) before) \<and>
         (\<exists>before after.
            Ticket_get ok s rid = Inr before \<and>
            Ticket_get ok (fst (mark_as_done ok self s nts updater now)) rid = Inr after \<and>
            map_option (\<lambda>t. (rowid t, name t, description t, project t, created_by t,
                             created_at t)) after =
            map_option (\<lambda>t. (rowid t, name t, description t, project t, created_by t,
                             created_at t)) before)) \<and>
      (\<forall>res. snd (assign_to ok self s st asg updater now) = Inr res \<longrightarrow>
         (\<exists>before.
            Ticket_get ok s (rowid self) = Inr before \<and>
            map_option (\<lambda>t. (rowid t, name t, description t, project t, created_by t,
                             created_at t, ticket_notes t)) res =
            map_option (\<lambda>t. (rowid t, name t, description t, project t, created_by t,
                             created_at t, ticket_notes t)) before)) \<and>
      (\<forall>res. snd (mark_as_done ok self s nts updater now) = Inr res \<longrightarrow>
         (\<exists>before.
            Ticket_get ok s (rowid self) = Inr before \<and>
            map_option (\<lambda>t. (rowid t, name t, description t, project t, created_by t,
                             created_at t)) res =
            map_option (\<lambda>t. (rowid t, name t, description t, project t, created_by t,
                             created_at t)) before))) \<and>
   take (length (ticket_table s))
     (ticket_table (fst (Ticket_new ok s nm descr proj asg' creator now))) = ticket_table s"
proof (intro conjI impI allI)
  show "map (\<lambda>r. (c_rowid r, c_name r, c_description r, c_project r, c_created_by r,
             c_created_at r, c_notes r))
     (ticket_table (fst (assign_to ok self s st asg updater now))) =
   map (\<lambda>r. (c_rowid r, c_name r, c_description r, c_project r, c_created_by r,
             c_created_at r, c_notes r)) (ticket_table s)"
    unfolding assign_to_write by (rule write_row_columns) (simp add: set_assignment_def)
  show "map (\<lambda>r. (c_rowid r, c_name r, c_description r, c_project r, c_created_by r,
             c_created_at r))
     (ticket_table (fst (mark_as_done ok self s nts updater now))) =
   map (\<lambda>r. (c_rowid r, c_name r, c_description r, c_project r, c_created_by r,
             c_created_at r)) (ticket_table s)"
    unfolding mark_as_done_write by (rule write_row_columns) (simp add: set_done_def)
  show "filter (\<lambda>r. c_rowid r \<noteq> rowid self)
     (ticket_table (fst (assign_to ok self s st asg updater now))) =
     filter (\<lambda>r. c_rowid r \<noteq> rowid self) (ticket_table s)"
    unfolding assign_to_write by (rule write_row_others) (simp add: set_assignment_def)
  show "filter (\<lambda>r. c_rowid r \<noteq> rowid self)
     (ticket_table (fst (mark_as_done ok self s nts updater now))) =
     filter (\<lambda>r. c_rowid r \<noteq> rowid self) (ticket_table s)"
    unfolding mark_as_done_write by (rule write_row_others) (simp add: set_done_def)
  show "take (length (ticket_table s))
     (ticket_table (fst (Ticket_new ok s nm descr proj asg' creator now))) = ticket_table s"
    by (rule Ticket_new_table)
next
  fix rid
  assume inv: "store_ok ok s"
  show "\<exists>before after.
            Ticket_get ok s rid = Inr before \<and>
            Ticket_get ok (fst (assign_to ok self s st asg updater now)) rid = Inr after \<and>
            map_option (\<lambda>t. (rowid t, name t, description t, project t, created_by t,
                             created_at t, ticket_notes t)) after =
            map_option (\<lambda>t. (rowid t, name t, description t, project t, created_by t,
                             created_at t, ticket_notes t)) before"
    unfolding assign_to_write
    by (rule write_row_get [OF inv keeps_frame_set_assignment])
      (simp_all add: set_assignment_def ticket_of_def)
  show "\<exists>before after.
            Ticket_get ok s rid = Inr before \<and>
            Ticket_get ok (fst (mark_as_done ok self s nts updater now)) rid = Inr after \<and>
            map_option (\<lambda>t. (rowid t, name t, description t, project t, created_by t,
                             created_at t)) after =
            map_option (\<lambda>t. (rowid t, name t, description t, project t, created_by t,
                             created_at t)) before"
    unfolding mark_as_done_write
    by (rule write_row_get [OF inv keeps_frame_set_done])
      (simp_all add: set_done_def ticket_of_def)
next
  fix res
  assume inv: "store_ok ok s"
    and res: "snd (assign_to ok self s st asg updater now) = Inr res"
  show "\<exists>before.
            Ticket_get ok s (rowid self) = Inr before \<and>
            map_option (\<lambda>t. (rowid t, name t, description t, project t, created_by t,
                             created_at t, ticket_notes t)) res =
            map_option (\<lambda>t. (rowid t, name t, description t, project t, created_by t,
                             created_at t, ticket_notes t)) before"
    using res unfolding assign_to_write
    by (intro write_row_returned [OF inv]) (simp_all add: set_assignment_def ticket_of_def)
next
  fix res
  assume inv: "store_ok ok s"
    and res: "snd (mark_as_done ok self s nts updater now) = Inr res"
  show "\<exists>before.
            Ticket_get ok s (rowid self) = Inr before \<and>
            map_option (\<lambda>t. (rowid t, name t, description t, project t, created_by t,
                             created_at t)) res =
            map_option (\<lambda>t. (rowid t, name t, description t, project t, created_by t,
                             created_at t)) before"
    using res unfolding mark_as_done_write
    by (intro write_row_returned [OF inv]) (simp_all add: set_done_def ticket_of_def)
qed

theorem transitions_frame_witness:
  "store_ok utc_localtime_ok login_store \<and>
   snd (assign_to utc_localtime_ok login_ticket login_store DOING (Some ''bob'') ''bob''
          (Datetime 1700000060000000)) = Inr (Some doing_ticket) \<and>
   (\<exists>before.
      Ticket_get utc_localtime_ok login_store (rowid login_ticket) = Inr before \<and>
      map_option (\<lambda>t. (rowid t, name t, description t, project t, created_by t,
                       created_at t, ticket_notes t)) (Some doing_ticket) =
      map_option (\<lambda>t. (rowid t, name t, description t, project t, created_by t,
                       created_at t, ticket_notes t)) before)"
proof -
  have inv: "store_ok utc_localtime_ok login_store"
    by (rule store_ok_login)
  have res: "snd (assign_to utc_localtime_ok login_ticket login_store DOING (Some ''bob'') ''bob''
          (Datetime 1700000060000000)) = Inr (Some doing_ticket)"
    by (simp add: doing_store_built)
  have "\<forall>res. snd (assign_to utc_localtime_ok login_ticket login_store DOING (Some ''bob'') ''bob''
          (Datetime 1700000060000000)) = Inr res \<longrightarrow>
         (\<exists>before.
            Ticket_get utc_localtime_ok login_store (rowid login_ticket) = Inr before \<and>
            map_option (\<lambda>t. (rowid t, name t, description t, project t, created_by t,
                             created_at t, ticket_notes t)) res =
            map_option (\<lambda>t. (rowid t, name t, description t, project t, created_by t,
                             created_at t, ticket_notes t)) before)"
    using transitions_frame [where ok = utc_localtime_ok and s = login_store
        and self = login_ticket and st = DOING and asg = "Some ''bob''" and updater = "''bob''"
        and now = "Datetime 1700000060000000"] inv
    by blast
  with res have "\<exists>before.
      Ticket_get utc_localtime_ok login_store (rowid login_ticket) = Inr before \<and>
      map_option (\<lambda>t. (rowid t, name t, description t, project t, created_by t,
                       created_at t, ticket_notes t)) (Some doing_ticket) =
      map_option (\<lambda>t. (rowid t, name t, description t, project t, created_by t,
                       created_at t, ticket_notes t)) before"
    by blast
  with inv res show ?thesis
    by (intro conjI)
qed

end
